theory Spec2Isabelle
  imports Complex_Main "HOL-Library.Log_Nat"
begin

section \<open>JavaScript values used by the engines\<close>

subsection \<open>Numbers\<close>

text \<open>
  A JavaScript \<open>number\<close> is modelled as an exact real or one of the three non-finite
  values. Division by zero is written out (\<open>0/0\<close> is \<open>NaN\<close>, \<open>x/0\<close> is an
  infinity), and every comparison with \<open>NaN\<close> is false, as in the language. The sign
  of zero is not modelled. Rounding to binary64 is a separate function, defined below.
  Lengths and match counts, which are non-negative integers in the source, are \<open>nat\<close>.
\<close>

datatype jsnum = Fin real | PInf | NInf | NaN

fun js_neg :: "jsnum \<Rightarrow> jsnum" where
  "js_neg (Fin a) = Fin (- a)"
| "js_neg PInf = NInf"
| "js_neg NInf = PInf"
| "js_neg NaN = NaN"

fun js_add :: "jsnum \<Rightarrow> jsnum \<Rightarrow> jsnum" where
  "js_add (Fin a) (Fin b) = Fin (a + b)"
| "js_add NaN y = NaN"
| "js_add x NaN = NaN"
| "js_add PInf NInf = NaN"
| "js_add NInf PInf = NaN"
| "js_add PInf y = PInf"
| "js_add NInf y = NInf"
| "js_add (Fin a) y = y"

definition js_sub :: "jsnum \<Rightarrow> jsnum \<Rightarrow> jsnum" where
  "js_sub x y = js_add x (js_neg y)"

fun js_sign :: "jsnum \<Rightarrow> int" where
  "js_sign (Fin a) = (if a < 0 then - 1 else if a = 0 then 0 else 1)"
| "js_sign PInf = 1"
| "js_sign NInf = - 1"
| "js_sign NaN = 0"

definition js_inf :: "int \<Rightarrow> jsnum" where
  "js_inf s = (if s = 0 then NaN else if s < 0 then NInf else PInf)"

fun js_mul :: "jsnum \<Rightarrow> jsnum \<Rightarrow> jsnum" where
  "js_mul (Fin a) (Fin b) = Fin (a * b)"
| "js_mul NaN y = NaN"
| "js_mul x NaN = NaN"
| "js_mul x y = js_inf (js_sign x * js_sign y)"

fun js_div :: "jsnum \<Rightarrow> jsnum \<Rightarrow> jsnum" where
  "js_div (Fin a) (Fin b) = (if b = 0 then js_inf (js_sign (Fin a)) else Fin (a / b))"
| "js_div NaN y = NaN"
| "js_div x NaN = NaN"
| "js_div (Fin a) y = Fin 0"
| "js_div x (Fin b) = js_inf (js_sign x * (if b < 0 then - 1 else 1))"
| "js_div x y = NaN"

fun js_lt :: "jsnum \<Rightarrow> jsnum \<Rightarrow> bool" where
  "js_lt (Fin a) (Fin b) = (a < b)"
| "js_lt NaN y = False"
| "js_lt x NaN = False"
| "js_lt x NInf = False"
| "js_lt PInf y = False"
| "js_lt x y = True"

definition js_gt :: "jsnum \<Rightarrow> jsnum \<Rightarrow> bool" where
  "js_gt x y = js_lt y x"

text \<open>\<open>Math.min\<close>, \<open>Math.max\<close>: \<open>NaN\<close> if either argument is.\<close>

fun js_min :: "jsnum \<Rightarrow> jsnum \<Rightarrow> jsnum" where
  "js_min NaN y = NaN"
| "js_min x NaN = NaN"
| "js_min x y = (if js_lt y x then y else x)"

fun js_max :: "jsnum \<Rightarrow> jsnum \<Rightarrow> jsnum" where
  "js_max NaN y = NaN"
| "js_max x NaN = NaN"
| "js_max x y = (if js_lt x y then y else x)"

text \<open>\<open>Math.sqrt\<close>, \<open>Math.pow(x, 2)\<close> and \<open>Math.round\<close> (ties go up).\<close>

fun js_sqrt :: "jsnum \<Rightarrow> jsnum" where
  "js_sqrt (Fin a) = (if a < 0 then NaN else Fin (sqrt a))"
| "js_sqrt PInf = PInf"
| "js_sqrt x = NaN"

definition js_pow2 :: "jsnum \<Rightarrow> jsnum" where
  "js_pow2 x = js_mul x x"

fun js_round :: "jsnum \<Rightarrow> jsnum" where
  "js_round (Fin a) = Fin (of_int \<lfloor>a + 1 / 2\<rfloor>)"
| "js_round x = x"

definition num :: "nat \<Rightarrow> jsnum" where
  "num n = Fin (real n)"

subsection \<open>Rounding to binary64\<close>

text \<open>
  \<open>fl x\<close> is the binary64 number nearest to \<open>x\<close>, ties to the even significand:
  \<open>expo x\<close> is the exponent \<open>e\<close> with \<open>2^e \<le> x < 2^(e+1)\<close>, the significand has 53
  bits, so the unit in the last place is \<open>2^(e-52)\<close>. The exponent range is not
  bounded: overflow and subnormal numbers are not modelled. An arithmetic operation
  of the language returns the rounded exact result; \<open>js_fl\<close> is that rounding, and it
  is applied where an extractor compares a computed, non-integral quantity with a
  threshold it can reach (the standard deviation of \<open>analyzeUniformity\<close>).
  \<open>Math.pow(x, 2)\<close> is taken to be the rounded square.
\<close>

definition expo :: "real \<Rightarrow> int" where
  "expo x = (if 1 \<le> x then bitlen \<lfloor>x\<rfloor> - 1 else - bitlen (\<lceil>1 / x\<rceil> - 1))"

definition rne :: "real \<Rightarrow> int" where
  "rne y = (let f = \<lfloor>y\<rfloor>; d = y - of_int f
            in if d < 1 / 2 then f else if 1 / 2 < d then f + 1
               else if even f then f else f + 1)"

definition fl :: "real \<Rightarrow> real" where
  "fl x = (if x = 0 then 0
           else let u = 2 powi (expo \<bar>x\<bar> - 52)
                in sgn x * of_int (rne (\<bar>x\<bar> / u)) * u)"

fun js_fl :: "jsnum \<Rightarrow> jsnum" where
  "js_fl (Fin a) = Fin (fl a)"
| "js_fl x = x"

subsection \<open>Strings\<close>

text \<open>
  A string is a list of code units, here the 8-bit ones: the texts considered are those
  whose code units are below 256, one \<open>char\<close> each, so that \<open>length\<close> is the
  \<open>length\<close> of the source. The white space of \<open>trim\<close> and of the regular-expression
  class \<open>\s\<close> is the same set; in this range it is tab, line feed, vertical tab, form
  feed, carriage return, space and no-break space. Under the \<open>i\<close> flag a letter of a
  pattern matches its two ASCII cases and nothing else.
\<close>

definition is_space :: "char \<Rightarrow> bool" where
  "is_space c = (c = CHR 0x09 \<or> c = CHR 0x0A \<or> c = CHR 0x0B \<or> c = CHR 0x0C
     \<or> c = CHR 0x0D \<or> c = CHR 0x20 \<or> c = CHR 0xA0)"

definition code_of :: "char \<Rightarrow> nat" where
  "code_of c = of_char c"

definition is_lower :: "char \<Rightarrow> bool" where
  "is_lower c = (97 \<le> code_of c \<and> code_of c \<le> 122)"

definition is_upper :: "char \<Rightarrow> bool" where
  "is_upper c = (65 \<le> code_of c \<and> code_of c \<le> 90)"

definition is_digit :: "char \<Rightarrow> bool" where
  "is_digit c = (48 \<le> code_of c \<and> code_of c \<le> 57)"

definition is_alpha :: "char \<Rightarrow> bool" where
  "is_alpha c = (is_lower c \<or> is_upper c)"

definition is_alnum :: "char \<Rightarrow> bool" where
  "is_alnum c = (is_alpha c \<or> is_digit c)"

text \<open>The class \<open>\w\<close>.\<close>

definition is_word :: "char \<Rightarrow> bool" where
  "is_word c = (is_alnum c \<or> c = CHR ''_'')"

text \<open>The class \<open>.\<close> (no \<open>s\<close> flag): anything but a line terminator.\<close>

definition is_dot :: "char \<Rightarrow> bool" where
  "is_dot c = (c \<noteq> CHR 0x0A \<and> c \<noteq> CHR 0x0D)"

definition to_upper :: "char \<Rightarrow> char" where
  "to_upper c = (if is_lower c then char_of (code_of c - 32) else c)"

definition trim :: "string \<Rightarrow> string" where
  "trim s = rev (dropWhile is_space (rev (dropWhile is_space s)))"

definition startsWith :: "string \<Rightarrow> string \<Rightarrow> bool" where
  "startsWith s p = (take (length p) s = p)"

fun str_includes :: "string \<Rightarrow> string \<Rightarrow> bool" where
  "str_includes [] p = (p = [])"
| "str_includes (c # cs) p = (startsWith (c # cs) p \<or> str_includes cs p)"

text \<open>\<open>s.split('\n')\<close>: always at least one piece.\<close>

fun split_lines :: "string \<Rightarrow> string list" where
  "split_lines [] = [[]]"
| "split_lines (c # cs) =
     (if c = CHR 0x0A then [] # split_lines cs
      else (case split_lines cs of [] \<Rightarrow> [[c]] | l # ls \<Rightarrow> (c # l) # ls))"

subsection \<open>Regular expressions\<close>

text \<open>
  The patterns of the source use literals, character classes, sequence, alternation,
  greedy repetition, \<open>\b\<close>, \<open>^\<close> and \<open>$\<close> (no \<open>m\<close> flag: start and end of input).
  \<open>ms r pv s\<close> is the backtracking matcher: all ways of matching \<open>r\<close> at the head of
  \<open>s\<close>, in the order the engine tries them, each given as the last character consumed
  and the rest of the input. \<open>pv\<close> is the character before \<open>s\<close>, \<open>None\<close> at the start of
  the input. An iteration of a repetition that consumes nothing is rejected.
\<close>

datatype regex =
    Atom "char \<Rightarrow> bool"
  | Eps
  | Seq regex regex
  | Alt regex regex
  | Star regex
  | Bow
  | Bol
  | Eol

definition word_before :: "char option \<Rightarrow> bool" where
  "word_before pv = (case pv of None \<Rightarrow> False | Some c \<Rightarrow> is_word c)"

definition word_after :: "string \<Rightarrow> bool" where
  "word_after s = (case s of [] \<Rightarrow> False | c # _ \<Rightarrow> is_word c)"

fun ms :: "regex \<Rightarrow> char option \<Rightarrow> string \<Rightarrow> (char option \<times> string) list" where
  "ms (Atom p) pv [] = []"
| "ms (Atom p) pv (c # cs) = (if p c then [(Some c, cs)] else [])"
| "ms Eps pv s = [(pv, s)]"
| "ms (Seq a b) pv s = concat (map (\<lambda>st. ms b (fst st) (snd st)) (ms a pv s))"
| "ms (Alt a b) pv s = ms a pv s @ ms b pv s"
| "ms (Star a) pv s =
     concat (map (\<lambda>st. if length (snd st) < length s then ms (Star a) (fst st) (snd st) else [])
                 (ms a pv s)) @ [(pv, s)]"
| "ms Bow pv s = (if word_before pv \<noteq> word_after s then [(pv, s)] else [])"
| "ms Bol pv s = (if pv = None then [(pv, s)] else [])"
| "ms Eol pv s = (if s = [] then [(pv, s)] else [])"

text \<open>
  \<open>exec\<close>: the first match searching rightwards from the current position, as the start
  and the end of the match (both as the remaining input). \<open>test\<close> is whether there is one;
  each pattern literal of the source is a fresh object, so its search starts at index 0.
\<close>

fun exec :: "regex \<Rightarrow> char option \<Rightarrow> string \<Rightarrow> (string \<times> string) option" where
  "exec r pv [] = (case ms r pv [] of [] \<Rightarrow> None | st # _ \<Rightarrow> Some ([], snd st))"
| "exec r pv (c # cs) =
     (case ms r pv (c # cs) of [] \<Rightarrow> exec r (Some c) cs | st # _ \<Rightarrow> Some (c # cs, snd st))"

definition test :: "regex \<Rightarrow> string \<Rightarrow> bool" where
  "test r s = (exec r None s \<noteq> None)"

text \<open>\<open>s.match(r)\<close> without the \<open>g\<close> flag: the text of the first match, or null.\<close>

definition match_first :: "regex \<Rightarrow> string \<Rightarrow> string option" where
  "match_first r s =
     (case exec r None s of None \<Rightarrow> None
      | Some (b, e) \<Rightarrow> Some (take (length b - length e) b))"

text \<open>
  The loop of a global match: successive matches, each search starting where the last
  match ended, one character further after an empty match.
\<close>

fun match_all :: "regex \<Rightarrow> char option \<Rightarrow> string \<Rightarrow> string list" where
  "match_all r pv s =
     (case ms r pv s of
        [] \<Rightarrow> (case s of [] \<Rightarrow> [] | c # cs \<Rightarrow> match_all r (Some c) cs)
      | st # _ \<Rightarrow>
          take (length s - length (snd st)) s #
          (if length (snd st) < length s then match_all r (fst st) (snd st)
           else (case s of [] \<Rightarrow> [] | c # cs \<Rightarrow> match_all r (Some c) cs)))"

text \<open>\<open>s.match(r)\<close> with the \<open>g\<close> flag: all matches, or null when there is none.\<close>

definition match_g :: "regex \<Rightarrow> string \<Rightarrow> string list option" where
  "match_g r s = (case match_all r None s of [] \<Rightarrow> None | m # rest \<Rightarrow> Some (m # rest))"

text \<open>\<open>Array.from(s.matchAll(r))\<close>: all matches, empty when there is none.\<close>

definition matchAll :: "regex \<Rightarrow> string \<Rightarrow> string list" where
  "matchAll r s = match_all r None s"

text \<open>Pattern syntax.\<close>

definition chr :: "char \<Rightarrow> regex" where
  "chr c = Atom (\<lambda>x. x = c)"

definition chr_i :: "char \<Rightarrow> regex" where
  "chr_i c = Atom (\<lambda>x. to_upper x = to_upper c)"

definition none_of :: "string \<Rightarrow> regex" where
  "none_of cs = Atom (\<lambda>x. x \<notin> set cs)"

definition one_of :: "string \<Rightarrow> regex" where
  "one_of cs = Atom (\<lambda>x. x \<in> set cs)"

fun lit :: "string \<Rightarrow> regex" where
  "lit [] = Eps"
| "lit [c] = chr c"
| "lit (c # cs) = Seq (chr c) (lit cs)"

fun lit_i :: "string \<Rightarrow> regex" where
  "lit_i [] = Eps"
| "lit_i [c] = chr_i c"
| "lit_i (c # cs) = Seq (chr_i c) (lit_i cs)"

fun seqs :: "regex list \<Rightarrow> regex" where
  "seqs [] = Eps"
| "seqs [r] = r"
| "seqs (r # rs) = Seq r (seqs rs)"

fun alts :: "regex list \<Rightarrow> regex" where
  "alts [] = Eps"
| "alts [r] = r"
| "alts (r # rs) = Alt r (alts rs)"

definition plus :: "regex \<Rightarrow> regex" where
  "plus r = Seq r (Star r)"

text \<open>\<open>r{n,}\<close> and \<open>r{0,n}\<close>, both greedy.\<close>

fun at_least :: "nat \<Rightarrow> regex \<Rightarrow> regex" where
  "at_least 0 r = Star r"
| "at_least (Suc n) r = Seq r (at_least n r)"

fun up_to :: "nat \<Rightarrow> regex \<Rightarrow> regex" where
  "up_to 0 r = Eps"
| "up_to (Suc n) r = Alt (Seq r (up_to n r)) Eps"

abbreviation ws :: regex where
  "ws \<equiv> Atom is_space"

abbreviation wd :: regex where
  "wd \<equiv> Atom is_word"

declare ms.simps(6) [simp del]

declare match_all.simps [simp del]

section \<open>Detection Engine\<close>

record Scores =
  commentDensity :: jsnum
  codeStructureScore :: jsnum
  namingPatternScore :: jsnum
  complexityScore :: jsnum
  uniformityScore :: jsnum

record DetectionResult =
  aiProbability :: jsnum
  detectionMethod :: string
  confidenceScore :: jsnum
  analysisDetails :: Scores

definition non_blank :: "string \<Rightarrow> bool" where
  "non_blank line = (length (trim line) > 0)"

definition is_comment_line :: "string \<Rightarrow> bool" where
  "is_comment_line line =
     (let trimmed = trim line
      in startsWith trimmed ''//'' \<or> startsWith trimmed ''/*''
         \<or> startsWith trimmed ''*'' \<or> startsWith trimmed ''#'')"

definition calculateCommentDensity :: "string \<Rightarrow> jsnum" where
  "calculateCommentDensity code =
     (let lines = split_lines code;
          commentLines = length (filter is_comment_line lines);
          totalLines = length (filter non_blank lines)
      in if totalLines = 0 then Fin 0
         else let density = js_mul (js_div (num commentLines) (num totalLines)) (Fin 100)
              in if js_gt density (Fin 30) then Fin 75
                 else if js_lt density (Fin 5) then Fin 20 else Fin 50)"

text \<open>\<open>/^(\s*)/\<close>: the group spans the whole match.\<close>

definition indentationPattern :: regex where
  "indentationPattern = Seq Bol (Star ws)"

definition checkIndentation :: "string \<Rightarrow> bool" where
  "checkIndentation code =
     (let lines = filter non_blank (split_lines code);
          indents = map (\<lambda>line. case match_first indentationPattern line of
                                    Some m \<Rightarrow> length m | None \<Rightarrow> 0) lines;
          uniqueIndents = set (filter (\<lambda>i. i > 0) indents)
      in card uniqueIndents \<le> 6)"

definition properSpacingPatterns :: "regex list" where
  "properSpacingPatterns =
     [seqs [Star ws, chr CHR ''='', Star ws],
      seqs [Star ws, chr CHR ''+'', Star ws],
      seqs [Star ws, chr CHR ''-'', Star ws],
      seqs [Star ws, chr CHR ''*'', Star ws],
      seqs [chr CHR ''{'', Star ws, Eol],
      seqs [chr CHR ''}'', Star ws, Eol]]"

definition checkSpacing :: "string \<Rightarrow> bool" where
  "checkSpacing code =
     (let matchCount = foldl (\<lambda>matchCount pattern.
                          if test pattern code then matchCount + 1 else matchCount)
                        (0::nat) properSpacingPatterns
      in matchCount \<ge> 3)"

text \<open>\<open>/function\s+\w+|const\s+\w+\s*=\s*\(|class\s+\w+/g\<close>\<close>

definition logicalBlockPattern :: regex where
  "logicalBlockPattern =
     alts [seqs [lit ''function'', plus ws, plus wd],
           seqs [lit ''const'', plus ws, plus wd, Star ws, chr CHR ''='', Star ws, chr CHR ''(''],
           seqs [lit ''class'', plus ws, plus wd]]"

definition checkLogicalBlocks :: "string \<Rightarrow> bool" where
  "checkLogicalBlocks code =
     (case match_g logicalBlockPattern code of
        Some matches \<Rightarrow> length matches \<ge> 1
      | None \<Rightarrow> False)"

definition analyzeCodeStructure :: "string \<Rightarrow> jsnum" where
  "analyzeCodeStructure code =
     (let hasConsistentIndentation = checkIndentation code;
          hasProperSpacing = checkSpacing code;
          hasLogicalBlocks = checkLogicalBlocks code;
          structureScore =
            (if hasConsistentIndentation then 33 else 0) +
            (if hasProperSpacing then 33 else 0) +
            (if hasLogicalBlocks then 34 else (0::nat))
      in if structureScore > 80 then Fin 70
         else if structureScore < 40 then Fin 30 else Fin 50)"

text \<open>\<open>/\b[a-z][a-zA-Z0-9]*\b/g\<close> and \<open>/\b[a-z]{4,}[A-Z][a-z]+\b/g\<close>\<close>

definition camelCasePattern :: regex where
  "camelCasePattern = seqs [Bow, Atom is_lower, Star (Atom is_alnum), Bow]"

definition descriptiveNamePattern :: regex where
  "descriptiveNamePattern =
     seqs [Bow, at_least 4 (Atom is_lower), Atom is_upper, plus (Atom is_lower), Bow]"

definition or_empty :: "string list option \<Rightarrow> string list" where
  "or_empty m = (case m of Some xs \<Rightarrow> xs | None \<Rightarrow> [])"

definition analyzeNamingPatterns :: "string \<Rightarrow> jsnum" where
  "analyzeNamingPatterns code =
     (let camelCaseMatches = or_empty (match_g camelCasePattern code);
          descriptiveMatches = or_empty (match_g descriptiveNamePattern code);
          namingScore =
            js_min (js_mul (js_div (num (length descriptiveMatches))
                                   (num (max (length camelCaseMatches) 1))) (Fin 100))
                   (Fin 100)
      in if js_gt namingScore (Fin 40) then Fin 65
         else if js_lt namingScore (Fin 10) then Fin 35 else Fin 50)"

definition controlFlowKeywords :: "string list" where
  "controlFlowKeywords = [''if'', ''else'', ''for'', ''while'', ''switch'', ''case'']"

definition keyword_regex :: "string \<Rightarrow> regex" where
  "keyword_regex keyword = seqs [Bow, lit keyword, Bow]"

definition analyzeComplexity :: "string \<Rightarrow> jsnum" where
  "analyzeComplexity code =
     (let lines = filter non_blank (split_lines code);
          avgLineLength =
            js_div (num (foldl (\<lambda>sum line. sum + length line) 0 lines)) (num (length lines));
          controlFlowCount =
            foldl (\<lambda>controlFlowCount keyword.
                     case match_g (keyword_regex keyword) code of
                       Some matches \<Rightarrow> controlFlowCount + length matches
                     | None \<Rightarrow> controlFlowCount)
                  0 controlFlowKeywords;
          complexityRatio = js_div (num controlFlowCount) (num (length lines))
      in if js_gt avgLineLength (Fin 80) \<and> js_gt complexityRatio (Fin 0.2) then Fin 70
         else if js_lt avgLineLength (Fin 30) \<and> js_lt complexityRatio (Fin 0.1) then Fin 40
         else Fin 55)"

definition analyzeUniformity :: "string \<Rightarrow> jsnum" where
  "analyzeUniformity code =
     (let lines = filter non_blank (split_lines code);
          lineLengths = map length lines;
          avg = js_fl (js_div (num (foldl (\<lambda>sum len. sum + len) 0 lineLengths))
                              (num (length lineLengths)));
          variance =
            js_fl (js_div
              (foldl (\<lambda>sum len.
                        js_fl (js_add sum (js_fl (js_pow2 (js_fl (js_sub (num len) avg))))))
                     (Fin 0) lineLengths)
              (num (length lineLengths)));
          stdDev = js_fl (js_sqrt variance);
          uniformityScore =
            (if js_lt stdDev (Fin 20) then Fin 75
             else if js_gt stdDev (Fin 50) then Fin 40 else Fin 55)
      in uniformityScore)"

text \<open>The local \<open>probability\<close> of \<open>calculateAIProbability\<close>: the weighted sum.\<close>

definition weighted_probability :: "Scores \<Rightarrow> jsnum" where
  "weighted_probability scores =
     js_add (js_add (js_add (js_add
       (js_mul (commentDensity scores) (Fin 0.15))
       (js_mul (codeStructureScore scores) (Fin 0.25)))
       (js_mul (namingPatternScore scores) (Fin 0.20)))
       (js_mul (complexityScore scores) (Fin 0.20)))
       (js_mul (uniformityScore scores) (Fin 0.20))"

definition calculateAIProbability :: "Scores \<Rightarrow> jsnum" where
  "calculateAIProbability scores =
     (let probability = weighted_probability scores
      in js_max (Fin 0) (js_min (Fin 100) probability))"

text \<open>\<open>Object.values(scores)\<close>, in the order the fields are written.\<close>

definition values_of :: "Scores \<Rightarrow> jsnum list" where
  "values_of scores =
     [commentDensity scores, codeStructureScore scores, namingPatternScore scores,
      complexityScore scores, uniformityScore scores]"

definition calculateConfidence :: "Scores \<Rightarrow> jsnum" where
  "calculateConfidence scores =
     (let vals = values_of scores;
          avg = js_div (foldl (\<lambda>sum val. js_add sum val) (Fin 0) vals) (num (length vals));
          variance =
            js_div (foldl (\<lambda>sum val. js_add sum (js_pow2 (js_sub val avg))) (Fin 0) vals)
                   (num (length vals));
          stdDev = js_sqrt variance;
          confidence = js_sub (Fin 100) (js_mul stdDev (Fin 1.5))
      in js_max (Fin 50) (js_min (Fin 100) confidence))"

text \<open>\<open>Math.round(x * 100) / 100\<close>\<close>

definition round2 :: "jsnum \<Rightarrow> jsnum" where
  "round2 x = js_div (js_round (js_mul x (Fin 100))) (Fin 100)"

definition extract_scores :: "string \<Rightarrow> Scores" where
  "extract_scores code =
     \<lparr>commentDensity = calculateCommentDensity code,
      codeStructureScore = analyzeCodeStructure code,
      namingPatternScore = analyzeNamingPatterns code,
      complexityScore = analyzeComplexity code,
      uniformityScore = analyzeUniformity code\<rparr>"

text \<open>\<open>DetectionEngine.analyzeCode\<close>\<close>

definition DetectionEngine_analyzeCode :: "string \<Rightarrow> string \<Rightarrow> DetectionResult" where
  "DetectionEngine_analyzeCode code language =
     (let scores = extract_scores code;
          aiProbability = calculateAIProbability scores;
          confidenceScore = calculateConfidence scores
      in \<lparr>aiProbability = round2 aiProbability,
          detectionMethod = ''hybrid-analysis'',
          confidenceScore = round2 confidenceScore,
          analysisDetails =
            \<lparr>commentDensity = round2 (commentDensity scores),
             codeStructureScore = round2 (codeStructureScore scores),
             namingPatternScore = round2 (namingPatternScore scores),
             complexityScore = round2 (complexityScore scores),
             uniformityScore = round2 (uniformityScore scores)\<rparr>\<rparr>)"

section \<open>Pattern Analyzer\<close>

datatype level = High | Medium | Low

record CodePattern =
  patternType :: string
  patternName :: string
  severity :: level
  description :: string
  lineNumbers :: "nat list"

definition is_slash_comment :: "string \<Rightarrow> bool" where
  "is_slash_comment line =
     (let trimmed = trim line
      in startsWith trimmed ''//'' \<or> startsWith trimmed ''/*'')"

text \<open>\<open>/^\s*/\<close>\<close>

definition leadingSpacePattern :: regex where
  "leadingSpacePattern = Seq Bol (Star ws)"

text \<open>\<open>line.match(/^\s*/)?.[0].length || 0\<close>\<close>

definition leading_spaces :: "string \<Rightarrow> nat" where
  "leading_spaces line =
     (case match_first leadingSpacePattern line of Some m \<Rightarrow> length m | None \<Rightarrow> 0)"

text \<open>\<open>/(?:const|let|var)\s+([a-z][a-zA-Z]{8,})/g\<close>\<close>

definition descriptiveVarPattern :: regex where
  "descriptiveVarPattern =
     seqs [alts [lit ''const'', lit ''let'', lit ''var''], plus ws,
           Atom is_lower, at_least 8 (Atom is_alpha)]"

definition detectAIPatterns :: "string \<Rightarrow> CodePattern list" where
  "detectAIPatterns code =
     (let lines = split_lines code;
          excessiveCommenting = filter is_slash_comment lines;
          patterns1 =
            (if js_gt (num (length excessiveCommenting)) (js_mul (num (length lines)) (Fin 0.3))
             then [\<lparr>patternType = ''ai-indicator'',
                    patternName = ''Excessive Comments'',
                    severity = Medium,
                    description = ''High comment density may indicate AI-generated code'',
                    lineNumbers = map (\<lambda>idx. idx + 1) [0..<length excessiveCommenting]\<rparr>]
             else []);
          perfectIndentation =
            list_all (\<lambda>line. if length (trim line) = 0 then True
                               else leading_spaces line mod 2 = 0) lines;
          patterns2 =
            (if perfectIndentation \<and> length lines > 10
             then [\<lparr>patternType = ''ai-indicator'',
                    patternName = ''Perfect Formatting'',
                    severity = Low,
                    description = ''Consistently perfect formatting across all lines'',
                    lineNumbers = []\<rparr>]
             else []);
          matches = matchAll descriptiveVarPattern code;
          patterns3 =
            (if length matches > 5
             then [\<lparr>patternType = ''ai-indicator'',
                    patternName = ''Overly Descriptive Names'',
                    severity = Low,
                    description = ''Variable names are unusually descriptive and verbose'',
                    lineNumbers = []\<rparr>]
             else [])
      in patterns1 @ patterns2 @ patterns3)"

text \<open>\<open>/\w+\+\w+|\w+\-\w+|\w+=\w+/g\<close>\<close>

definition inconsistentSpacing :: regex where
  "inconsistentSpacing =
     alts [seqs [plus wd, chr CHR ''+'', plus wd],
           seqs [plus wd, chr CHR ''-'', plus wd],
           seqs [plus wd, chr CHR ''='', plus wd]]"

definition detectStylePatterns :: "string \<Rightarrow> CodePattern list" where
  "detectStylePatterns code =
     (let lines = split_lines code;
          longLines = filter (\<lambda>(line, idx). length line > 120)
                        (map (\<lambda>(idx, line). (line, idx + 1)) (enumerate 0 lines));
          patterns1 =
            (if length longLines > 0
             then [\<lparr>patternType = ''style'',
                    patternName = ''Long Lines'',
                    severity = Low,
                    description = ''Lines exceed recommended length of 120 characters'',
                    lineNumbers = map (\<lambda>(line, idx). idx) longLines\<rparr>]
             else []);
          patterns2 =
            (if test inconsistentSpacing code
             then [\<lparr>patternType = ''style'',
                    patternName = ''Inconsistent Spacing'',
                    severity = Low,
                    description = ''Operators lack proper spacing'',
                    lineNumbers = []\<rparr>]
             else [])
      in patterns1 @ patterns2)"

text \<open>\<open>/\{\s*if|if.*\{\s*if|for.*\{\s*for/g\<close>\<close>

definition nestedBlockPattern :: regex where
  "nestedBlockPattern =
     alts [seqs [chr CHR ''{'', Star ws, lit ''if''],
           seqs [lit ''if'', Star (Atom is_dot), chr CHR ''{'', Star ws, lit ''if''],
           seqs [lit ''for'', Star (Atom is_dot), chr CHR ''{'', Star ws, lit ''for'']]"

text \<open>\<open>/function\s+\w+|const\s+\w+\s*=\s*\(/\<close>\<close>

definition functionPattern :: regex where
  "functionPattern =
     alts [seqs [lit ''function'', plus ws, plus wd],
           seqs [lit ''const'', plus ws, plus wd, Star ws, chr CHR ''='', Star ws, chr CHR ''('']]"

text \<open>The variables of the scan in \<open>findLongFunctions\<close>.\<close>

record Scan =
  scanLineNumbers :: "nat list"
  inFunction :: bool
  functionStart :: nat
  braceCount :: int

definition count_matches :: "regex \<Rightarrow> string \<Rightarrow> nat" where
  "count_matches r line = length (or_empty (match_g r line))"

definition scan_line :: "Scan \<Rightarrow> nat \<times> string \<Rightarrow> Scan" where
  "scan_line st p =
     (let idx = fst p; line = snd p;
          trimmed = trim line;
          st1 = (if test functionPattern trimmed
                 then st\<lparr>inFunction := True, functionStart := idx + 1, braceCount := 0\<rparr>
                 else st)
      in if inFunction st1
         then
           (let st2 = st1\<lparr>braceCount := braceCount st1
                          + int (count_matches (chr CHR ''{'') line)
                          - int (count_matches (chr CHR ''}'') line)\<rparr>
            in if braceCount st2 = 0 \<and> str_includes trimmed ''}''
               then
                 (let functionLength = int idx - int (functionStart st2) + 2;
                      st3 = (if functionLength > 50
                             then st2\<lparr>scanLineNumbers :=
                                        scanLineNumbers st2 @ [functionStart st2..<idx + 2]\<rparr>
                             else st2)
                  in st3\<lparr>inFunction := False\<rparr>)
               else st2)
         else st1)"

definition findLongFunctions :: "string list \<Rightarrow> nat list" where
  "findLongFunctions lines =
     scanLineNumbers
       (foldl scan_line
          \<lparr>scanLineNumbers = [], inFunction = False, functionStart = 0, braceCount = 0\<rparr>
          (enumerate 0 lines))"

definition detectComplexityPatterns :: "string \<Rightarrow> CodePattern list" where
  "detectComplexityPatterns code =
     (let lines = split_lines code;
          nestedBlocks = match_g nestedBlockPattern code;
          patterns1 =
            (if (case nestedBlocks of Some m \<Rightarrow> length m > 3 | None \<Rightarrow> False)
             then [\<lparr>patternType = ''complexity'',
                    patternName = ''Deep Nesting'',
                    severity = High,
                    description = ''Multiple levels of nested blocks increase complexity'',
                    lineNumbers = []\<rparr>]
             else []);
          functions = match_g functionPattern code;
          patterns2 =
            (if (case functions of Some m \<Rightarrow> length m > 10 | None \<Rightarrow> False)
             then [\<lparr>patternType = ''complexity'',
                    patternName = ''Many Functions'',
                    severity = Medium,
                    description =
                      ''File contains many functions, consider splitting into modules'',
                    lineNumbers = []\<rparr>]
             else []);
          longFunction = findLongFunctions lines;
          patterns3 =
            (if length longFunction > 0
             then [\<lparr>patternType = ''complexity'',
                    patternName = ''Long Function'',
                    severity = Medium,
                    description = ''Function exceeds 50 lines, consider refactoring'',
                    lineNumbers = longFunction\<rparr>]
             else [])
      in patterns1 @ patterns2 @ patterns3)"

abbreviation quote :: regex where
  "quote \<equiv> one_of [CHR 0x27, CHR 0x22]"

abbreviation not_quote :: regex where
  "not_quote \<equiv> none_of [CHR 0x27, CHR 0x22]"

text \<open>\<open>/(?:password|secret|apikey|token)\s*=\s*['"][^'"]+['"]/gi\<close>\<close>

definition hardcodedSecrets :: regex where
  "hardcodedSecrets =
     seqs [alts [lit_i ''password'', lit_i ''secret'', lit_i ''apikey'', lit_i ''token''],
           Star ws, chr CHR ''='', Star ws, quote, plus not_quote, quote]"

text \<open>\<open>/['"]\s*\+\s*\w+\s*\+\s*['"].*(?:SELECT|INSERT|UPDATE|DELETE)/gi\<close>\<close>

definition sqlInjection :: regex where
  "sqlInjection =
     seqs [quote, Star ws, chr CHR ''+'', Star ws, plus wd, Star ws, chr CHR ''+'', Star ws,
           quote, Star (Atom is_dot),
           alts [lit_i ''SELECT'', lit_i ''INSERT'', lit_i ''UPDATE'', lit_i ''DELETE'']]"

text \<open>\<open>/eval\s*\(/g\<close>\<close>

definition evalUsage :: regex where
  "evalUsage = seqs [lit ''eval'', Star ws, chr CHR ''('']"

definition detectSecurityPatterns :: "string \<Rightarrow> CodePattern list" where
  "detectSecurityPatterns code =
     (let patterns1 =
            (if test hardcodedSecrets code
             then [\<lparr>patternType = ''security'',
                    patternName = ''Hardcoded Credentials'',
                    severity = High,
                    description = ''Potential hardcoded credentials detected'',
                    lineNumbers = []\<rparr>]
             else []);
          patterns2 =
            (if test sqlInjection code
             then [\<lparr>patternType = ''security'',
                    patternName = ''SQL Injection Risk'',
                    severity = High,
                    description = ''String concatenation in SQL queries detected'',
                    lineNumbers = []\<rparr>]
             else []);
          patterns3 =
            (if test evalUsage code
             then [\<lparr>patternType = ''security'',
                    patternName = ''Eval Usage'',
                    severity = High,
                    description = ''Use of eval() is a security risk'',
                    lineNumbers = []\<rparr>]
             else [])
      in patterns1 @ patterns2 @ patterns3)"

definition detectPatterns :: "string \<Rightarrow> string \<Rightarrow> CodePattern list" where
  "detectPatterns code language =
     detectAIPatterns code @ detectStylePatterns code
       @ detectComplexityPatterns code @ detectSecurityPatterns code"

section \<open>Suggestion Generator\<close>

datatype suggestion_type = Refactor | Security | Performance | Style

record DeveloperSuggestion =
  suggestionType :: suggestion_type
  title :: string
  sdescription :: string
  codeSnippet :: string
  priority :: level

text \<open>What a call can throw.\<close>

datatype js_error = TypeError | Error string

text \<open>The fixed snippets.\<close>

definition snippet_extract_functions :: string where
  \<open>snippet_extract_functions = ''// Before:\<newline>function largeFunction() {\<newline>  // 100+ lines\<newline>}\<newline>\<newline>// After:\<newline>function mainFunction() {\<newline>  validateInput();\<newline>  processData();\<newline>  formatOutput();\<newline>}\<newline>\<newline>function validateInput() { ... }\<newline>function processData() { ... }''\<close>

definition snippet_repeated_logic :: string where
  \<open>snippet_repeated_logic = ''// Extract common logic:\<newline>function processItem(item) {\<newline>  // Common processing logic\<newline>  return transformedItem;\<newline>}\<newline>\<newline>// Use in multiple places:\<newline>items.forEach(item => processItem(item));''\<close>

definition snippet_conditional :: string where
  \<open>snippet_conditional = ''// Instead of multiple ifs:\<newline>const handlers = {\<newline>  'type1': handleType1,\<newline>  'type2': handleType2,\<newline>  'type3': handleType3\<newline>};\<newline>\<newline>handlers[type]?.();''\<close>

definition snippet_credentials :: string where
  \<open>snippet_credentials = ''// Instead of:\<newline>const apiKey = "hardcoded-key";\<newline>\<newline>// Use:\<newline>const apiKey = import.meta.env.VITE_API_KEY;''\<close>

definition snippet_eval :: string where
  \<open>snippet_eval = ''// Instead of eval, use:\<newline>const result = JSON.parse(jsonString);\<newline>// or\<newline>const fn = new Function('return ' + expression)();''\<close>

definition snippet_inner_html :: string where
  \<open>snippet_inner_html = ''// Safer approach:\<newline>element.textContent = userInput;\<newline>// Or use a sanitization library:\<newline>element.innerHTML = DOMPurify.sanitize(userInput);''\<close>

definition snippet_nested_loops :: string where
  \<open>snippet_nested_loops = ''// Instead of nested loops:\<newline>const map = new Map();\<newline>array1.forEach(item => map.set(item.id, item));\<newline>array2.forEach(item => {\<newline>  const match = map.get(item.id);\<newline>});''\<close>

definition snippet_array_ops :: string where
  \<open>snippet_array_ops = ''// Instead of:\<newline>array.map(x => x * 2).filter(x => x > 10);\<newline>\<newline>// Use reduce:\<newline>array.reduce((acc, x) => {\<newline>  const doubled = x * 2;\<newline>  if (doubled > 10) acc.push(doubled);\<newline>  return acc;\<newline>}, []);''\<close>

definition snippet_dom_queries :: string where
  \<open>snippet_dom_queries = ''// Cache DOM references:\<newline>const element = document.querySelector('.my-element');\<newline>// Reuse the cached reference\<newline>element.classList.add('active');''\<close>

definition snippet_var :: string where
  \<open>snippet_var = ''// Instead of:\<newline>var count = 0;\<newline>\<newline>// Use:\<newline>const count = 0; // for values that won't change\<newline>let counter = 0; // for values that will change''\<close>

definition snippet_arrow :: string where
  \<open>snippet_arrow = ''// Instead of:\<newline>function add(a, b) {\<newline>  return a + b;\<newline>}\<newline>\<newline>// Use:\<newline>const add = (a, b) => a + b;''\<close>

definition snippet_line_length :: string where
  \<open>snippet_line_length = ''// Break long lines:\<newline>const result = veryLongFunction(\<newline>  parameter1,\<newline>  parameter2,\<newline>  parameter3\<newline>);''\<close>

text \<open>\<open>/for\s*\([^)]+\)\s*\{[^}]{50,}\}/g\<close>\<close>

definition duplicateLoopPattern :: regex where
  "duplicateLoopPattern =
     seqs [lit ''for'', Star ws, chr CHR ''('', plus (none_of '')''), chr CHR '')'', Star ws,
           chr CHR ''{'', at_least 50 (none_of ''}''), chr CHR ''}'']"

text \<open>\<open>/if\s*\(/g\<close>\<close>

definition ifOpenPattern :: regex where
  "ifOpenPattern = seqs [lit ''if'', Star ws, chr CHR ''('']"

text \<open>
  The third condition reads \<open>code.match(/if\s*\(/g)!.length\<close>: the non-null assertion
  is erased at run time, so reading \<open>length\<close> of a null result throws a TypeError.
\<close>

definition generateRefactoringSuggestions :: "string \<Rightarrow> js_error + DeveloperSuggestion list" where
  "generateRefactoringSuggestions code =
     (let suggestions1 =
            (if str_includes code ''function'' \<and> length code > 500
             then [\<lparr>suggestionType = Refactor,
                    title = ''Extract Functions'',
                    sdescription = ''Consider breaking down large functions into smaller, reusable components for better maintainability.'',
                    codeSnippet = snippet_extract_functions,
                    priority = Medium\<rparr>]
             else []);
          duplicatePatterns = match_g duplicateLoopPattern code;
          suggestions2 =
            (if (case duplicatePatterns of Some m \<Rightarrow> length m > 2 | None \<Rightarrow> False)
             then [\<lparr>suggestionType = Refactor,
                    title = ''Extract Repeated Logic'',
                    sdescription = ''Similar code blocks detected. Consider extracting into a reusable helper function.'',
                    codeSnippet = snippet_repeated_logic,
                    priority = Medium\<rparr>]
             else [])
      in if str_includes code ''if''
         then (case match_g ifOpenPattern code of
                 None \<Rightarrow> Inl TypeError
               | Some m \<Rightarrow>
                   Inr (suggestions1 @ suggestions2 @
                     (if length m > 5
                      then [\<lparr>suggestionType = Refactor,
                             title = ''Simplify Conditional Logic'',
                             sdescription = ''Multiple conditional statements detected. Consider using strategy pattern or lookup tables.'',
                             codeSnippet = snippet_conditional,
                             priority = Low\<rparr>]
                      else [])))
         else Inr (suggestions1 @ suggestions2))"

text \<open>\<open>/(?:password|secret|apikey)\s*=\s*['"][^'"]+['"]/gi\<close>\<close>

definition credentialPattern :: regex where
  "credentialPattern =
     seqs [alts [lit_i ''password'', lit_i ''secret'', lit_i ''apikey''],
           Star ws, chr CHR ''='', Star ws, quote, plus not_quote, quote]"

text \<open>\<open>/innerHTML\s*=/g\<close>\<close>

definition innerHtmlPattern :: regex where
  "innerHtmlPattern = seqs [lit ''innerHTML'', Star ws, chr CHR ''='']"

definition generateSecuritySuggestions :: "string \<Rightarrow> DeveloperSuggestion list" where
  "generateSecuritySuggestions code =
     (let suggestions1 =
            (if test credentialPattern code
             then [\<lparr>suggestionType = Security,
                    title = ''Remove Hardcoded Credentials'',
                    sdescription = ''Credentials should be stored in environment variables, not hardcoded in source code.'',
                    codeSnippet = snippet_credentials,
                    priority = High\<rparr>]
             else []);
          suggestions2 =
            (if test evalUsage code
             then [\<lparr>suggestionType = Security,
                    title = ''Avoid eval()'',
                    sdescription = ''Using eval() is dangerous and can lead to code injection attacks. Use safer alternatives.'',
                    codeSnippet = snippet_eval,
                    priority = High\<rparr>]
             else []);
          suggestions3 =
            (if test innerHtmlPattern code
             then [\<lparr>suggestionType = Security,
                    title = ''XSS Risk with innerHTML'',
                    sdescription = ''Using innerHTML with user input can lead to XSS attacks. Use textContent or sanitize input.'',
                    codeSnippet = snippet_inner_html,
                    priority = High\<rparr>]
             else [])
      in suggestions1 @ suggestions2 @ suggestions3)"

text \<open>\<open>/for\s*\([^)]+\)\s*\{[^}]*for\s*\(/g\<close>\<close>

definition nestedLoopPattern :: regex where
  "nestedLoopPattern =
     seqs [lit ''for'', Star ws, chr CHR ''('', plus (none_of '')''), chr CHR '')'', Star ws,
           chr CHR ''{'', Star (none_of ''}''), lit ''for'', Star ws, chr CHR ''('']"

text \<open>\<open>/\.map\([^)]+\)\.filter\(/g\<close>\<close>

definition mapFilterPattern :: regex where
  "mapFilterPattern =
     seqs [lit ''.map('', plus (none_of '')''), lit '').filter(''] "

text \<open>\<open>/document\.querySelector|document\.getElementById/g\<close>\<close>

definition domQueryPattern :: regex where
  "domQueryPattern = alts [lit ''document.querySelector'', lit ''document.getElementById'']"

definition generatePerformanceSuggestions :: "string \<Rightarrow> DeveloperSuggestion list" where
  "generatePerformanceSuggestions code =
     (let suggestions1 =
            (if test nestedLoopPattern code
             then [\<lparr>suggestionType = Performance,
                    title = ''Optimize Nested Loops'',
                    sdescription = ''Nested loops can have O(n'' @ [CHR 0xB2] @ '') complexity. Consider using hash maps or other data structures.'',
                    codeSnippet = snippet_nested_loops,
                    priority = Medium\<rparr>]
             else []);
          suggestions2 =
            (if test mapFilterPattern code
             then [\<lparr>suggestionType = Performance,
                    title = ''Combine Array Operations'',
                    sdescription = ''Chaining map and filter creates multiple iterations. Combine them for better performance.'',
                    codeSnippet = snippet_array_ops,
                    priority = Low\<rparr>]
             else []);
          suggestions3 =
            (if test domQueryPattern code
                \<and> length (or_empty (match_g domQueryPattern code)) > 3
             then [\<lparr>suggestionType = Performance,
                    title = ''Cache DOM Queries'',
                    sdescription = ''Multiple DOM queries detected. Cache references to improve performance.'',
                    codeSnippet = snippet_dom_queries,
                    priority = Medium\<rparr>]
             else [])
      in suggestions1 @ suggestions2 @ suggestions3)"

text \<open>\<open>/var\s+\w+/\<close>\<close>

definition varPattern :: regex where
  "varPattern = seqs [lit ''var'', plus ws, plus wd]"

text \<open>\<open>/function\s+\w+\s*\([^)]*\)\s*\{/\<close>\<close>

definition functionDeclPattern :: regex where
  "functionDeclPattern =
     seqs [lit ''function'', plus ws, plus wd, Star ws, chr CHR ''('', Star (none_of '')''),
           chr CHR '')'', Star ws, chr CHR ''{'']"

text \<open>\<open>/function\s+\w+\s*\([^)]*\)\s*\{[^}]{0,50}\}/g\<close>\<close>

definition shortFunctionPattern :: regex where
  "shortFunctionPattern =
     seqs [functionDeclPattern, up_to 50 (none_of ''}''), chr CHR ''}'']"

definition generateStyleSuggestions :: "string \<Rightarrow> DeveloperSuggestion list" where
  "generateStyleSuggestions code =
     (let suggestions1 =
            (if test varPattern code
             then [\<lparr>suggestionType = Style,
                    title = ''Use const/let Instead of var'',
                    sdescription = ''Modern JavaScript uses const and let for better scoping and immutability.'',
                    codeSnippet = snippet_var,
                    priority = Low\<rparr>]
             else []);
          suggestions2 =
            (if test functionDeclPattern code
             then (let arrowPossible = match_g shortFunctionPattern code
                   in if (case arrowPossible of Some m \<Rightarrow> length m > 0 | None \<Rightarrow> False)
                      then [\<lparr>suggestionType = Style,
                             title = ''Consider Arrow Functions'',
                             sdescription = ''For simple functions, arrow functions provide cleaner syntax.'',
                             codeSnippet = snippet_arrow,
                             priority = Low\<rparr>]
                      else [])
             else []);
          suggestions3 =
            (if list_ex (\<lambda>line. length line > 120) (split_lines code)
             then [\<lparr>suggestionType = Style,
                    title = ''Line Length'',
                    sdescription = ''Some lines exceed 120 characters. Break them down for better readability.'',
                    codeSnippet = snippet_line_length,
                    priority = Low\<rparr>]
             else [])
      in suggestions1 @ suggestions2 @ suggestions3)"

text \<open>
  The four groups are evaluated in order; an exception of the first leaves the call
  before the others run.
\<close>

definition generateSuggestions :: "string \<Rightarrow> string \<Rightarrow> js_error + DeveloperSuggestion list" where
  "generateSuggestions code language =
     (case generateRefactoringSuggestions code of
        Inl e \<Rightarrow> Inl e
      | Inr refactoring \<Rightarrow>
          Inr (refactoring @ generateSecuritySuggestions code
                 @ generatePerformanceSuggestions code @ generateStyleSuggestions code))"

section \<open>Analysis Coordinator\<close>

text \<open>
  The persistence collaborator is a store of three tables of rows. Its answer to the
  insertion of the submission is an argument of the coordinator: the identifier of the
  new row, or \<open>None\<close> when it reports an error or no row. The results of the three later
  insertions are not inspected by the source; the store is taken to keep what it is given.
\<close>

record DetectionRow =
  dr_submission_id :: string
  ai_probability :: jsnum
  detection_method :: string
  confidence_score :: jsnum
  analysis_details :: Scores

record PatternRow =
  pr_submission_id :: string
  pattern_type :: string
  pattern_name :: string
  pr_severity :: string
  pr_description :: string
  line_numbers :: "nat list"

record SuggestionRow =
  sr_submission_id :: string
  suggestion_type :: string
  sr_title :: string
  sr_description :: string
  code_snippet :: string
  sr_priority :: string

record Store =
  detection_results :: "DetectionRow list"
  code_patterns :: "PatternRow list"
  developer_suggestions :: "SuggestionRow list"

text \<open>The entries of the returned result, as the interface \<open>AnalysisResult\<close> declares them.\<close>

record PatternEntry =
  p_type :: string
  p_name :: string
  p_severity :: string
  p_description :: string

record SuggestionEntry =
  s_type :: string
  s_title :: string
  s_description :: string
  s_priority :: string

record AnalysisResult =
  submissionId :: string
  res_aiProbability :: jsnum
  res_confidenceScore :: jsnum
  patterns :: "PatternEntry list"
  suggestions :: "SuggestionEntry list"

text \<open>The literal string values of the two enumerations.\<close>

fun level_str :: "level \<Rightarrow> string" where
  "level_str High = ''high''"
| "level_str Medium = ''medium''"
| "level_str Low = ''low''"

fun suggestion_type_str :: "suggestion_type \<Rightarrow> string" where
  "suggestion_type_str Refactor = ''refactor''"
| "suggestion_type_str Security = ''security''"
| "suggestion_type_str Performance = ''performance''"
| "suggestion_type_str Style = ''style''"

definition pattern_row :: "string \<Rightarrow> CodePattern \<Rightarrow> PatternRow" where
  "pattern_row sid pattern =
     \<lparr>pr_submission_id = sid,
      pattern_type = patternType pattern,
      pattern_name = patternName pattern,
      pr_severity = level_str (severity pattern),
      pr_description = description pattern,
      line_numbers = lineNumbers pattern\<rparr>"

definition suggestion_row :: "string \<Rightarrow> DeveloperSuggestion \<Rightarrow> SuggestionRow" where
  "suggestion_row sid suggestion =
     \<lparr>sr_submission_id = sid,
      suggestion_type = suggestion_type_str (suggestionType suggestion),
      sr_title = title suggestion,
      sr_description = sdescription suggestion,
      code_snippet = codeSnippet suggestion,
      sr_priority = level_str (priority suggestion)\<rparr>"

definition pattern_entry :: "CodePattern \<Rightarrow> PatternEntry" where
  "pattern_entry p =
     \<lparr>p_type = patternType p,
      p_name = patternName p,
      p_severity = level_str (severity p),
      p_description = description p\<rparr>"

definition suggestion_entry :: "DeveloperSuggestion \<Rightarrow> SuggestionEntry" where
  "suggestion_entry s =
     \<lparr>s_type = suggestion_type_str (suggestionType s),
      s_title = title s,
      s_description = sdescription s,
      s_priority = level_str (priority s)\<rparr>"

text \<open>\<open>analyzeCode\<close> of the analysis service.\<close>

definition analyzeCode ::
  "string option \<Rightarrow> Store \<Rightarrow> string \<Rightarrow> string \<Rightarrow> string \<Rightarrow> string
     \<Rightarrow> (js_error + AnalysisResult) \<times> Store" where
  "analyzeCode submission db code language fileName userId =
     (case submission of
        None \<Rightarrow> (Inl (Error ''Failed to create code submission''), db)
      | Some sid \<Rightarrow>
          (let detectionResult = DetectionEngine_analyzeCode code language;
               pats = detectPatterns code language
           in case generateSuggestions code language of
                Inl e \<Rightarrow> (Inl e, db)
              | Inr sugs \<Rightarrow>
                  (let db1 = db\<lparr>detection_results := detection_results db @
                               [\<lparr>dr_submission_id = sid,
                                 ai_probability = aiProbability detectionResult,
                                 detection_method = detectionMethod detectionResult,
                                 confidence_score = confidenceScore detectionResult,
                                 analysis_details = analysisDetails detectionResult\<rparr>]\<rparr>;
                       db2 = (if length pats > 0
                              then db1\<lparr>code_patterns := code_patterns db1 @
                                         map (pattern_row sid) pats\<rparr>
                              else db1);
                       db3 = (if length sugs > 0
                              then db2\<lparr>developer_suggestions := developer_suggestions db2 @
                                         map (suggestion_row sid) sugs\<rparr>
                              else db2)
                   in (Inr \<lparr>submissionId = sid,
                            res_aiProbability = aiProbability detectionResult,
                            res_confidenceScore = confidenceScore detectionResult,
                            patterns = map pattern_entry pats,
                            suggestions = map suggestion_entry sugs\<rparr>,
                       db3))))"

section \<open>The aggregation as the specification words it\<close>

definition spec_clamp :: "real \<Rightarrow> real \<Rightarrow> real \<Rightarrow> real" where
  "spec_clamp lo hi x = max lo (min hi x)"

text \<open>Rounding to two decimals, ties upwards.\<close>

definition spec_round2 :: "real \<Rightarrow> real" where
  "spec_round2 x = real_of_int (round (x * 100)) / 100"

definition spec_mean :: "real list \<Rightarrow> real" where
  "spec_mean xs = sum_list xs / real (length xs)"

text \<open>Population standard deviation.\<close>

definition spec_stddev :: "real list \<Rightarrow> real" where
  "spec_stddev xs =
     sqrt (sum_list (map (\<lambda>x. (x - spec_mean xs)\<^sup>2) xs) / real (length xs))"

definition spec_weighted :: "real \<Rightarrow> real \<Rightarrow> real \<Rightarrow> real \<Rightarrow> real \<Rightarrow> real" where
  "spec_weighted cd cs np cx un = 0.15 * cd + 0.25 * cs + 0.20 * np + 0.20 * cx + 0.20 * un"

definition spec_aiProbability :: "real \<Rightarrow> real \<Rightarrow> real \<Rightarrow> real \<Rightarrow> real \<Rightarrow> real" where
  "spec_aiProbability cd cs np cx un = spec_round2 (spec_clamp 0 100 (spec_weighted cd cs np cx un))"

definition spec_confidenceScore :: "real \<Rightarrow> real \<Rightarrow> real \<Rightarrow> real \<Rightarrow> real \<Rightarrow> real" where
  "spec_confidenceScore cd cs np cx un =
     spec_round2 (spec_clamp 50 100 (100 - 1.5 * spec_stddev [cd, cs, np, cx, un]))"

section \<open>Readings of the claims and concrete inputs\<close>

text \<open>
  The comment-density bucket as the claim words it: the density is taken to be 0 when
  there is no non-blank line, and the bucket is then chosen from the density.
\<close>

definition claimed_commentDensity :: "string \<Rightarrow> real" where
  "claimed_commentDensity code =
     (let commentLines = length (filter is_comment_line (split_lines code));
          nonBlankLines = length (filter non_blank (split_lines code));
          density = (if nonBlankLines = 0 then 0
                     else real commentLines / real nonBlankLines * 100)
      in if density > 30 then 75 else if density < 5 then 20 else 50)"

text \<open>Ten lines, four of them starting with \<open>//\<close>, the others plain statements.\<close>

definition scenario_a :: string where
  "scenario_a = ''// a\<newline>x = 1;\<newline>// b\<newline>y = 2;\<newline>// c\<newline>z = 3;\<newline>// d\<newline>w = 4;\<newline>u = 5;\<newline>v = 6;''"

text \<open>The excessive-comments pattern for a given number of comment lines.\<close>

definition excessive_comments :: "nat \<Rightarrow> CodePattern" where
  "excessive_comments n =
     \<lparr>patternType = ''ai-indicator'', patternName = ''Excessive Comments'', severity = Medium,
      description = ''High comment density may indicate AI-generated code'',
      lineNumbers = [1..<n + 1]\<rparr>"

text \<open>Three lines whose comments are on lines 2 and 3.\<close>

definition late_comments :: string where
  "late_comments = ''x\<newline>//a\<newline>//b''"

text \<open>
  The scan of \<open>findLongFunctions\<close> in words: a line is a header when its trimmed text
  matches the function pattern; the brace balance of a line is its count of \<open>{\<close> minus
  its count of \<open>}\<close>; a line closes the function when the balance after it is 0 and its
  trimmed text contains \<open>}\<close>. A body stays open when none of its lines is a header and
  none closes the function.
\<close>

definition is_header :: "string \<Rightarrow> bool" where
  "is_header l = test functionPattern (trim l)"

definition net :: "string \<Rightarrow> int" where
  "net line = int (count_matches (chr CHR ''{'') line) - int (count_matches (chr CHR ''}'') line)"

definition closes :: "int \<Rightarrow> string \<Rightarrow> bool" where
  "closes b l = (b = 0 \<and> str_includes (trim l) ''}'')"

fun body_open :: "int \<Rightarrow> string list \<Rightarrow> bool" where
  "body_open b [] = True"
| "body_open b (l # ls) =
     (\<not> is_header l \<and> \<not> closes (b + net l) l \<and> body_open (b + net l) ls)"

fun no_header :: "string list \<Rightarrow> bool" where
  "no_header [] = True"
| "no_header (l # ls) = (\<not> is_header l \<and> no_header ls)"

definition long_function :: "nat list \<Rightarrow> CodePattern" where
  "long_function ns =
     \<lparr>patternType = ''complexity'', patternName = ''Long Function'', severity = Medium,
      description = ''Function exceeds 50 lines, consider refactoring'', lineNumbers = ns\<rparr>"

text \<open>A function of 60 lines: the header, 58 statements, the closing brace.\<close>

definition sixty_lines :: string where
  "sixty_lines =
     ''function f() {'' @ [CHR 0x0A] @ concat (replicate 58 ('' x;'' @ [CHR 0x0A])) @ ''}''"

text \<open>
  A function of 60 lines on lines 3 to 62 of a text of 63 lines: the header with the
  opening brace on the next line, an inner block in the body, a comment and a blank
  line before it and a statement after it.
\<close>

definition framed_body :: "string list" where
  "framed_body =
     ''{'' # replicate 27 '' x;'' @ ['' if (x) {'', '' }''] @ replicate 28 '' y;''"

definition framed_lines :: "string list" where
  "framed_lines = [''// note'', []] @ ''function f()'' # framed_body @ ''}'' # [''done();'']"

definition join_lines :: "string list \<Rightarrow> string" where
  "join_lines ls = tl (concat (map (\<lambda>l. CHR 0x0A # l) ls))"

definition framed_function :: string where
  "framed_function = join_lines framed_lines"

text \<open>
  The 60 lines again, with one statement of the body replaced by a statement that
  matches the function pattern.
\<close>

definition inner_header_lines :: "string list" where
  "inner_header_lines =
     ''function f() {'' # replicate 28 '' x;'' @ ['' const y = (1 + 2);'']
       @ replicate 29 '' x;'' @ [''}'']"


text \<open>
  Two texts of nine lines of the letter \<open>a\<close>. Over the reals the standard deviation of
  the line lengths is exactly 20 for the first and exactly 50 for the second.
\<close>

definition lines_of_lengths :: "nat list \<Rightarrow> string" where
  "lines_of_lengths ns = join_lines (map (\<lambda>n. replicate n CHR ''a'') ns)"

definition deviation_20 :: "nat list" where
  "deviation_20 = [3, 8, 9, 10, 15, 13, 6, 59, 54]"

definition deviation_50 :: "nat list" where
  "deviation_50 = [3, 41, 15, 13, 153, 7, 30, 111, 11]"

definition token_assignment :: string where
  \<open>token_assignment = ''token = "abc"''\<close>

definition one_comment :: string where
  "one_comment = ''//a''"

definition two_comments :: string where
  "two_comments = ''//a\<newline>//b''"

definition empty_store :: Store where
  "empty_store = \<lparr>detection_results = [], code_patterns = [], developer_suggestions = []\<rparr>"

definition excessive_entry :: PatternEntry where
  "excessive_entry =
     \<lparr>p_type = ''ai-indicator'', p_name = ''Excessive Comments'', p_severity = ''medium'',
      p_description = ''High comment density may indicate AI-generated code''\<rparr>"

section \<open>Properties of the Detection Engine\<close>

text \<open>Each extractor returns one of its bucket constants.\<close>

lemma calculateCommentDensity_bucket:
  "calculateCommentDensity code \<in> {Fin 0, Fin 20, Fin 50, Fin 75}"
  by (simp add: calculateCommentDensity_def Let_def)

lemma analyzeCodeStructure_bucket:
  "analyzeCodeStructure code \<in> {Fin 30, Fin 50, Fin 70}"
  by (simp add: analyzeCodeStructure_def Let_def)

lemma analyzeNamingPatterns_bucket:
  "analyzeNamingPatterns code \<in> {Fin 35, Fin 50, Fin 65}"
  by (simp add: analyzeNamingPatterns_def Let_def)

lemma analyzeComplexity_bucket:
  "analyzeComplexity code \<in> {Fin 40, Fin 55, Fin 70}"
  by (simp add: analyzeComplexity_def Let_def)

lemma analyzeUniformity_bucket:
  "analyzeUniformity code \<in> {Fin 40, Fin 55, Fin 75}"
  by (simp add: analyzeUniformity_def Let_def)

text \<open>The five scores are finite, each from its bucket set.\<close>

lemma extract_scores_finite:
  "\<exists>cd cs np cx un.
     extract_scores code =
       \<lparr>commentDensity = Fin cd, codeStructureScore = Fin cs, namingPatternScore = Fin np,
        complexityScore = Fin cx, uniformityScore = Fin un\<rparr>
     \<and> cd \<in> {0, 20, 50, 75} \<and> cs \<in> {30, 50, 70} \<and> np \<in> {35, 50, 65}
     \<and> cx \<in> {40, 55, 70} \<and> un \<in> {40, 55, 75}"
proof -
  obtain cd where cd: "calculateCommentDensity code = Fin cd" "cd \<in> {0, 20, 50, 75}"
    using calculateCommentDensity_bucket [of code] by auto
  obtain cs where cs: "analyzeCodeStructure code = Fin cs" "cs \<in> {30, 50, 70}"
    using analyzeCodeStructure_bucket [of code] by auto
  obtain np where np: "analyzeNamingPatterns code = Fin np" "np \<in> {35, 50, 65}"
    using analyzeNamingPatterns_bucket [of code] by auto
  obtain cx where cx: "analyzeComplexity code = Fin cx" "cx \<in> {40, 55, 70}"
    using analyzeComplexity_bucket [of code] by auto
  obtain un where un: "analyzeUniformity code = Fin un" "un \<in> {40, 55, 75}"
    using analyzeUniformity_bucket [of code] by auto
  show ?thesis
    unfolding extract_scores_def using cd cs np cx un by blast
qed

lemma js_min_fin: "js_min (Fin a) (Fin b) = Fin (min a b)"
  by (simp add: min_def)

lemma js_max_fin: "js_max (Fin a) (Fin b) = Fin (max a b)"
  by (simp add: max_def)

lemma round2_fin: "round2 (Fin x) = Fin (spec_round2 x)"
  by (simp add: round2_def spec_round2_def round_def)

lemma weighted_probability_fin:
  "weighted_probability
     \<lparr>commentDensity = Fin cd, codeStructureScore = Fin cs, namingPatternScore = Fin np,
      complexityScore = Fin cx, uniformityScore = Fin un\<rparr>
   = Fin (spec_weighted cd cs np cx un)"
  by (simp only: weighted_probability_def Scores.simps js_mul.simps(1) js_add.simps(1)
        spec_weighted_def mult.commute)

lemma calculateAIProbability_fin:
  "calculateAIProbability
     \<lparr>commentDensity = Fin cd, codeStructureScore = Fin cs, namingPatternScore = Fin np,
      complexityScore = Fin cx, uniformityScore = Fin un\<rparr>
   = Fin (spec_clamp 0 100 (spec_weighted cd cs np cx un))"
  by (simp only: calculateAIProbability_def Let_def weighted_probability_fin
        js_min_fin js_max_fin spec_clamp_def)

lemma variance_nonneg:
  "\<not> ((a::real)\<^sup>2 + b\<^sup>2 + c\<^sup>2 + d\<^sup>2 + e\<^sup>2) / 5 < 0"
  by (simp add: not_less)

lemma calculateConfidence_fin:
  "calculateConfidence
     \<lparr>commentDensity = Fin cd, codeStructureScore = Fin cs, namingPatternScore = Fin np,
      complexityScore = Fin cx, uniformityScore = Fin un\<rparr>
   = Fin (spec_clamp 50 100 (100 - 1.5 * spec_stddev [cd, cs, np, cx, un]))"
proof -
  let ?m = "spec_mean [cd, cs, np, cx, un]"
  let ?v = "((cd - ?m)\<^sup>2 + (cs - ?m)\<^sup>2 + (np - ?m)\<^sup>2 + (cx - ?m)\<^sup>2 + (un - ?m)\<^sup>2) / 5"
  have sd: "spec_stddev [cd, cs, np, cx, un] = sqrt ?v"
    by (simp add: spec_stddev_def algebra_simps)
  have avg: "js_div (foldl (\<lambda>sum val. js_add sum val) (Fin 0) [Fin cd, Fin cs, Fin np, Fin cx, Fin un]) (num 5) = Fin ?m"
    by (simp add: num_def spec_mean_def algebra_simps)
  have var: "js_div (foldl (\<lambda>sum val. js_add sum (js_pow2 (js_sub val (Fin ?m)))) (Fin 0)
                 [Fin cd, Fin cs, Fin np, Fin cx, Fin un]) (num 5) = Fin ?v"
    by (simp add: num_def js_pow2_def js_sub_def power2_eq_square)
  have sq: "js_sqrt (Fin ?v) = Fin (sqrt ?v)"
    using variance_nonneg [of "cd - ?m" "cs - ?m" "np - ?m" "cx - ?m" "un - ?m"]
    by (simp only: js_sqrt.simps if_False)
  have len: "length [Fin cd, Fin cs, Fin np, Fin cx, Fin un] = 5"
    by simp
  show ?thesis
    unfolding calculateConfidence_def Let_def values_of_def Scores.simps len avg var sq sd
    by (simp only: js_sub_def js_mul.simps(1) js_neg.simps js_add.simps(1) js_min_fin js_max_fin
          spec_clamp_def mult.commute diff_conv_add_uminus)
qed

lemma spec_round2_bounds:
  assumes "real_of_int a / 100 \<le> x" "x \<le> real_of_int b / 100"
  shows "real_of_int a / 100 \<le> spec_round2 x \<and> spec_round2 x \<le> real_of_int b / 100"
proof -
  have "round (real_of_int a) \<le> round (x * 100)"
    using assms(1) by (intro round_mono) (simp add: field_simps)
  moreover have "round (x * 100) \<le> round (real_of_int b)"
    using assms(2) by (intro round_mono) (simp add: field_simps)
  ultimately show ?thesis
    by (simp add: spec_round2_def divide_le_cancel)
qed

lemma spec_round2_quarter: "spec_round2 (real_of_int k / 4) = real_of_int k / 4"
proof -
  have "real_of_int k / 4 * 100 = real_of_int (25 * k)"
    by simp
  then show ?thesis
    unfolding spec_round2_def by (simp only: round_of_int)
qed

lemma clamp_bounds: "lo \<le> hi \<Longrightarrow> lo \<le> spec_clamp lo hi x \<and> spec_clamp lo hi x \<le> hi"
  by (auto simp: spec_clamp_def)

lemma DetectionEngine_result:
  assumes "extract_scores code =
       \<lparr>commentDensity = Fin cd, codeStructureScore = Fin cs, namingPatternScore = Fin np,
        complexityScore = Fin cx, uniformityScore = Fin un\<rparr>"
  shows "aiProbability (DetectionEngine_analyzeCode code language) = Fin (spec_aiProbability cd cs np cx un)"
    and "confidenceScore (DetectionEngine_analyzeCode code language) = Fin (spec_confidenceScore cd cs np cx un)"
  by (simp_all add: DetectionEngine_analyzeCode_def Let_def assms calculateAIProbability_fin
        calculateConfidence_fin round2_fin spec_aiProbability_def spec_confidenceScore_def)

text \<open>
  Claim C6. For every input, the engine's \<open>aiProbability\<close> is the weighted sum of the five
  scores (weights 0.15, 0.25, 0.20, 0.20, 0.20) clamped to [0, 100] and rounded to two
  decimals, and its \<open>confidenceScore\<close> is 100 minus 1.5 times the population standard
  deviation of the five scores, clamped to [50, 100] and rounded to two decimals.
\<close>

theorem detection_engine_aggregation:
  "\<exists>cd cs np cx un.
     calculateCommentDensity code = Fin cd \<and> analyzeCodeStructure code = Fin cs
     \<and> analyzeNamingPatterns code = Fin np \<and> analyzeComplexity code = Fin cx
     \<and> analyzeUniformity code = Fin un
     \<and> aiProbability (DetectionEngine_analyzeCode code language)
         = Fin (spec_aiProbability cd cs np cx un)
     \<and> confidenceScore (DetectionEngine_analyzeCode code language)
         = Fin (spec_confidenceScore cd cs np cx un)"
proof -
  obtain cd cs np cx un where sc: "extract_scores code =
       \<lparr>commentDensity = Fin cd, codeStructureScore = Fin cs, namingPatternScore = Fin np,
        complexityScore = Fin cx, uniformityScore = Fin un\<rparr>"
    using extract_scores_finite [of code] by blast
  then have "calculateCommentDensity code = Fin cd" "analyzeCodeStructure code = Fin cs"
    "analyzeNamingPatterns code = Fin np" "analyzeComplexity code = Fin cx"
    "analyzeUniformity code = Fin un"
    by (simp_all add: extract_scores_def)
  with DetectionEngine_result [OF sc] show ?thesis
    by blast
qed

text \<open>
  Claim C7. For every input string, the empty one included, \<open>aiProbability\<close> is a finite
  number in [0, 100] and \<open>confidenceScore\<close> a finite number in [50, 100].
\<close>

theorem detection_engine_ranges:
  "\<exists>p c. aiProbability (DetectionEngine_analyzeCode code language) = Fin p
     \<and> 0 \<le> p \<and> p \<le> 100
     \<and> confidenceScore (DetectionEngine_analyzeCode code language) = Fin c
     \<and> 50 \<le> c \<and> c \<le> 100"
proof -
  obtain cd cs np cx un where sc: "extract_scores code =
       \<lparr>commentDensity = Fin cd, codeStructureScore = Fin cs, namingPatternScore = Fin np,
        complexityScore = Fin cx, uniformityScore = Fin un\<rparr>"
    using extract_scores_finite [of code] by blast
  have "0 \<le> spec_aiProbability cd cs np cx un \<and> spec_aiProbability cd cs np cx un \<le> 100"
    unfolding spec_aiProbability_def
    using spec_round2_bounds [of 0 _ 10000] clamp_bounds [of 0 100] by simp
  moreover
  have "50 \<le> spec_confidenceScore cd cs np cx un \<and> spec_confidenceScore cd cs np cx un \<le> 100"
    unfolding spec_confidenceScore_def
    using spec_round2_bounds [of 5000 _ 10000] clamp_bounds [of 50 100] by simp
  ultimately show ?thesis
    using DetectionEngine_result [OF sc] by blast
qed

text \<open>
  Claim C9. The language tag changes the output of none of the three engines.
\<close>

theorem language_independence:
  "DetectionEngine_analyzeCode code l1 = DetectionEngine_analyzeCode code l2
   \<and> detectPatterns code l1 = detectPatterns code l2
   \<and> generateSuggestions code l1 = generateSuggestions code l2"
  by (simp add: DetectionEngine_analyzeCode_def detectPatterns_def generateSuggestions_def)

text \<open>
  Claim C10. Each score lies in its bucket set, so the unrounded weighted sum lies
  between 30.5 and 70.75; the clamp to [0, 100] leaves it unchanged, and so does the
  rounding, hence \<open>aiProbability\<close> lies in the same interval.
\<close>

theorem weighted_sum_bounds:
  "calculateCommentDensity code \<in> {Fin 0, Fin 20, Fin 50, Fin 75}
   \<and> analyzeCodeStructure code \<in> {Fin 30, Fin 50, Fin 70}
   \<and> analyzeNamingPatterns code \<in> {Fin 35, Fin 50, Fin 65}
   \<and> analyzeComplexity code \<in> {Fin 40, Fin 55, Fin 70}
   \<and> analyzeUniformity code \<in> {Fin 40, Fin 55, Fin 75}
   \<and> (\<exists>w. weighted_probability (extract_scores code) = Fin w
          \<and> 30.5 \<le> w \<and> w \<le> 70.75
          \<and> calculateAIProbability (extract_scores code) = Fin w
          \<and> aiProbability (DetectionEngine_analyzeCode code language) = Fin w)"
proof -
  obtain cd cs np cx un where sc: "extract_scores code =
       \<lparr>commentDensity = Fin cd, codeStructureScore = Fin cs, namingPatternScore = Fin np,
        complexityScore = Fin cx, uniformityScore = Fin un\<rparr>"
    and b: "cd \<in> {0, 20, 50, 75}" "cs \<in> {30, 50, 70}" "np \<in> {35, 50, 65}"
       "cx \<in> {40, 55, 70}" "un \<in> {40, 55, 75}"
    using extract_scores_finite [of code] by blast
  let ?w = "spec_weighted cd cs np cx un"
  have lo: "30.5 \<le> ?w" and hi: "?w \<le> 70.75"
    using b unfolding spec_weighted_def by auto
  have clamp: "spec_clamp 0 100 ?w = ?w"
    using lo hi by (simp add: spec_clamp_def)
  obtain k1 :: int where k1: "0.15 * cd = real_of_int k1 / 4"
    using b(1) by (elim insertE emptyE) (auto intro: that [of 0] that [of 12] that [of 30] that [of 45])
  obtain k2 :: int where k2: "0.25 * cs = real_of_int k2 / 4"
    using b(2) by (elim insertE emptyE) (auto intro: that [of 30] that [of 50] that [of 70])
  obtain k3 :: int where k3: "0.20 * np = real_of_int k3 / 4"
    using b(3) by (elim insertE emptyE) (auto intro: that [of 28] that [of 40] that [of 52])
  obtain k4 :: int where k4: "0.20 * cx = real_of_int k4 / 4"
    using b(4) by (elim insertE emptyE) (auto intro: that [of 32] that [of 44] that [of 56])
  obtain k5 :: int where k5: "0.20 * un = real_of_int k5 / 4"
    using b(5) by (elim insertE emptyE) (auto intro: that [of 32] that [of 44] that [of 60])
  have "?w = real_of_int (k1 + k2 + k3 + k4 + k5) / 4"
    unfolding spec_weighted_def k1 k2 k3 k4 k5 by (simp add: add_divide_distrib)
  then have rnd: "spec_round2 ?w = ?w"
    by (simp only: spec_round2_quarter)
  have "weighted_probability (extract_scores code) = Fin ?w"
    by (simp only: sc weighted_probability_fin)
  moreover have "calculateAIProbability (extract_scores code) = Fin ?w"
    by (simp only: sc calculateAIProbability_fin clamp)
  moreover have "aiProbability (DetectionEngine_analyzeCode code language) = Fin ?w"
    using DetectionEngine_result(1) [OF sc] by (simp add: spec_aiProbability_def clamp rnd)
  ultimately show ?thesis
    using lo hi calculateCommentDensity_bucket analyzeCodeStructure_bucket
      analyzeNamingPatterns_bucket analyzeComplexity_bucket analyzeUniformity_bucket
    by blast
qed


text \<open>
  On an input without non-blank lines the averages are \<open>NaN\<close>; every comparison with
  them is false, so the middle bucket is returned.
\<close>

lemma empty_input_scores:
  "analyzeComplexity [] = Fin 55" "analyzeUniformity [] = Fin 55"
  "calculateCommentDensity [] = Fin 0"
  by (simp_all add: analyzeComplexity_def analyzeUniformity_def calculateCommentDensity_def
        non_blank_def trim_def num_def js_gt_def js_inf_def)

text \<open>
  Evaluation of the rounding on numerals.
\<close>

lemma bitlen_numeral: "bitlen (numeral n) = bitlen (numeral n div 2) + 1"
  by (subst compute_bitlen) simp

lemma bitlen_one: "bitlen 1 = 1"
  by (subst compute_bitlen) simp

lemmas fl_eval = fl_def expo_def rne_def Let_def bitlen_numeral bitlen_one power_int_def
  power_one_over inverse_eq_divide

lemma rne_below: "y < of_int N - 1 / 2 \<Longrightarrow> rne y < N"
  unfolding rne_def Let_def by (auto split: if_splits) linarith+

lemma rne_above: "of_int N + 1 / 2 < y \<Longrightarrow> N < rne y"
  unfolding rne_def Let_def by (auto split: if_splits) linarith+

text \<open>
  With the rounding, the two texts whose exact standard deviation sits on a threshold
  fall on the side the binary64 computation takes: the rounded variances are
  \<open>400 - 2^-43\<close> and \<open>2500 + 2^-41\<close>.
\<close>

lemma d20_lines:
  "map length (filter non_blank (split_lines (lines_of_lengths deviation_20))) = deviation_20"
  by code_simp

lemma d20_avg:
  "js_fl (js_div (num (foldl (\<lambda>sum len. sum + len) 0 deviation_20)) (num (length deviation_20)))
   = Fin (5535674541976235 / 2 ^ 48)"
  by (simp add: deviation_20_def num_def fl_eval)

lemma d20_var:
  "js_fl (js_div
      (foldl (\<lambda>sum len. js_fl (js_add sum (js_fl (js_pow2 (js_fl (js_sub (num len)
                 (Fin (5535674541976235 / 2 ^ 48))))))))
             (Fin 0) deviation_20)
      (num (length deviation_20)))
   = Fin (3518437208883199 / 2 ^ 43)"
  by (simp add: deviation_20_def num_def js_pow2_def js_sub_def fl_eval)

lemma fl_pos:
  "0 < y \<Longrightarrow> expo y = e \<Longrightarrow> fl y = real_of_int (rne (y / 2 powi (e - 52))) * 2 powi (e - 52)"
  by (simp add: fl_def Let_def)

lemma fl_below_20:
  assumes "19 \<le> y" "y < 20 - 1 / 2 ^ 49"
  shows "fl y < 20"
proof -
  have "\<lfloor>y\<rfloor> = 19"
    using assms by (intro floor_unique) simp_all
  then have e: "expo y = 4"
    using assms(1) by (simp add: expo_def bitlen_numeral bitlen_one)
  have u: "(2::real) powi (4 - 52) = 1 / 2 ^ 48"
    by (simp add: power_int_def power_one_over inverse_eq_divide)
  have "rne (y * 2 ^ 48) < 20 * 2 ^ 48"
    using assms(2) by (intro rne_below) (simp add: field_simps)
  then have "real_of_int (rne (y * 2 ^ 48)) < real_of_int (20 * 2 ^ 48)"
    by (simp only: of_int_less_iff)
  moreover have "fl y = real_of_int (rne (y * 2 ^ 48)) / 2 ^ 48"
    using assms(1) fl_pos [OF _ e] by (simp add: u)
  ultimately show ?thesis
    by (simp add: field_simps)
qed

lemma fl_above_50:
  assumes "50 + 1 / 2 ^ 48 < y" "y < 51"
  shows "50 < fl y"
proof -
  have "\<lfloor>y\<rfloor> = 50"
    using assms by (intro floor_unique) simp_all
  then have e: "expo y = 5"
    using assms(1) by (simp add: expo_def bitlen_numeral bitlen_one)
  have u: "(2::real) powi (5 - 52) = 1 / 2 ^ 47"
    by (simp add: power_int_def power_one_over inverse_eq_divide)
  have "50 * 2 ^ 47 < rne (y * 2 ^ 47)"
    using assms(1) by (intro rne_above) (simp add: field_simps)
  then have "real_of_int (50 * 2 ^ 47) < real_of_int (rne (y * 2 ^ 47))"
    by (simp only: of_int_less_iff)
  moreover have "fl y = real_of_int (rne (y * 2 ^ 47)) / 2 ^ 47"
    using assms(1) fl_pos [OF _ e] by (simp add: u)
  ultimately show ?thesis
    by (simp add: field_simps)
qed

lemma d20_sqrt: "fl (sqrt (3518437208883199 / 2 ^ 43)) < 20"
proof (rule fl_below_20)
  show "19 \<le> sqrt (3518437208883199 / 2 ^ 43)"
    by (rule real_le_rsqrt) simp
  show "sqrt (3518437208883199 / 2 ^ 43) < 20 - 1 / 2 ^ 49"
    by (rule real_less_lsqrt) (simp_all add: power2_eq_square)
qed

lemma d50_lines:
  "map length (filter non_blank (split_lines (lines_of_lengths deviation_50))) = deviation_50"
  by code_simp

lemma d50_avg:
  "js_fl (js_div (num (foldl (\<lambda>sum len. sum + len) 0 deviation_50)) (num (length deviation_50)))
   = Fin (6004799503160661 / 2 ^ 47)"
  by (simp add: deviation_50_def num_def fl_eval)

lemma d50_var:
  "js_fl (js_div
      (foldl (\<lambda>sum len. js_fl (js_add sum (js_fl (js_pow2 (js_fl (js_sub (num len)
                 (Fin (6004799503160661 / 2 ^ 47))))))))
             (Fin 0) deviation_50)
      (num (length deviation_50)))
   = Fin (5497558138880001 / 2 ^ 41)"
  by (simp add: deviation_50_def num_def js_pow2_def js_sub_def fl_eval)

lemma d50_sqrt: "50 < fl (sqrt (5497558138880001 / 2 ^ 41))"
proof (rule fl_above_50)
  show "50 + 1 / 2 ^ 48 < sqrt (5497558138880001 / 2 ^ 41)"
    by (rule real_less_rsqrt) (simp add: power2_eq_square)
  show "sqrt (5497558138880001 / 2 ^ 41) < 51"
    by (rule real_less_lsqrt) simp_all
qed

lemma uniformity_deviation_20: "analyzeUniformity (lines_of_lengths deviation_20) = Fin 75"
  apply (simp only: analyzeUniformity_def Let_def d20_lines d20_avg d20_var js_sqrt.simps
        js_fl.simps)
  using d20_sqrt by simp

lemma uniformity_deviation_50: "analyzeUniformity (lines_of_lengths deviation_50) = Fin 40"
  apply (simp only: analyzeUniformity_def Let_def d50_lines d50_avg d50_var js_sqrt.simps
        js_fl.simps)
  using d50_sqrt by (simp add: js_gt_def)

lemma exact_deviations:
  "spec_stddev (map real deviation_20) = 20" "spec_stddev (map real deviation_50) = 50"
proof -
  have "sqrt (20\<^sup>2) = 20" "sqrt (50\<^sup>2) = 50"
    by (simp_all only: real_sqrt_abs abs_numeral)
  then show "spec_stddev (map real deviation_20) = 20" "spec_stddev (map real deviation_50) = 50"
    by (simp_all add: spec_stddev_def spec_mean_def deviation_20_def deviation_50_def
          power2_eq_square)
qed

text \<open>
  Claim C4, as stated, fails on the empty text: the claim takes the density to be 0 there
  and so asks for bucket 20, while the extractor returns 0 as soon as there is no
  non-blank line.
\<close>

theorem comment_density_empty_counterexample: "calculateCommentDensity [] \<noteq> Fin (claimed_commentDensity [])"
  by (simp add: calculateCommentDensity_def claimed_commentDensity_def non_blank_def trim_def)

text \<open>
  Claim C4, amended. The extractor returns 0 when there is no non-blank line; otherwise
  75 if the density exceeds 30, 20 if it is below 5, and 50 otherwise, the density being
  comment lines over non-blank lines times 100. In particular a text of ten non-blank
  lines of which four are comment lines yields 75.
\<close>

theorem comment_density_buckets:
  "calculateCommentDensity code =
     (if length (filter non_blank (split_lines code)) = 0 then Fin 0
      else Fin (claimed_commentDensity code))
   \<and> (length (split_lines code) = 10 \<and> list_all non_blank (split_lines code)
        \<and> length (filter is_comment_line (split_lines code)) = 4
      \<longrightarrow> calculateCommentDensity code = Fin 75)"
proof -
  have general: "calculateCommentDensity code =
     (if length (filter non_blank (split_lines code)) = 0 then Fin 0
      else Fin (claimed_commentDensity code))"
    by (simp add: calculateCommentDensity_def claimed_commentDensity_def Let_def num_def js_gt_def)
  have "calculateCommentDensity code = Fin 75"
    if h: "length (split_lines code) = 10" "list_all non_blank (split_lines code)"
      "length (filter is_comment_line (split_lines code)) = 4"
  proof -
    have "filter non_blank (split_lines code) = split_lines code"
      using h(2) by (simp add: list_all_iff)
    then have "length (filter non_blank (split_lines code)) = 10"
      using h(1) by simp
    then show ?thesis
      using h(3) by (simp add: general claimed_commentDensity_def)
  qed
  with general show ?thesis
    by blast
qed

text \<open>Scenario A on a concrete text.\<close>

lemma scenario_a_lines:
  "split_lines scenario_a =
     [''// a'', ''x = 1;'', ''// b'', ''y = 2;'', ''// c'', ''z = 3;'', ''// d'', ''w = 4;'',
      ''u = 5;'', ''v = 6;'']"
  by code_simp

theorem comment_density_scenario_a:
  "length (split_lines scenario_a) = 10 \<and> list_all non_blank (split_lines scenario_a)
   \<and> length (filter is_comment_line (split_lines scenario_a)) = 4
   \<and> calculateCommentDensity scenario_a = Fin 75"
proof -
  have h: "length (split_lines scenario_a) = 10 \<and> list_all non_blank (split_lines scenario_a)
     \<and> length (filter is_comment_line (split_lines scenario_a)) = 4"
    by code_simp
  with comment_density_buckets [of scenario_a] show ?thesis
    by blast
qed

section \<open>Properties of the Pattern Analyzer\<close>

text \<open>
  Claim C8. The analyzer emits the pattern named Excessive Comments exactly when the
  number of lines starting (after trimming) with \<open>//\<close> or \<open>/*\<close> exceeds 0.3 times the
  number of lines, blank ones included; it is then emitted once, as a medium-severity
  ai-indicator whose line numbers are 1, 2, ..., that number of comment lines.
\<close>

theorem excessive_comments_pattern:
  "filter (\<lambda>p. patternName p = ''Excessive Comments'') (detectPatterns code language) =
     (if real (length (filter is_slash_comment (split_lines code)))
           > 0.3 * real (length (split_lines code))
      then [excessive_comments (length (filter is_slash_comment (split_lines code)))]
      else [])"
  by (simp add: detectPatterns_def detectAIPatterns_def detectStylePatterns_def
        detectComplexityPatterns_def detectSecurityPatterns_def Let_def
        js_gt_def num_def excessive_comments_def map_Suc_upt mult.commute del: upt_Suc)

text \<open>
  Two comments on lines 2 and 3 of a three-line text are reported as lines 1 and 2.
\<close>

theorem excessive_comments_positional:
  "filter (\<lambda>p. patternName p = ''Excessive Comments'') (detectPatterns late_comments []) =
     [\<lparr>patternType = ''ai-indicator'', patternName = ''Excessive Comments'', severity = Medium,
      description = ''High comment density may indicate AI-generated code'',
      lineNumbers = [1, 2]\<rparr>]"
proof -
  have "split_lines late_comments = [''x'', ''//a'', ''//b'']"
    by code_simp
  moreover have "filter is_slash_comment [''x'', ''//a'', ''//b''] = [''//a'', ''//b'']"
    by code_simp
  ultimately show ?thesis
    using excessive_comments_pattern [of late_comments "[]"] by (simp add: excessive_comments_def upt_rec)
qed

text \<open>The scan, line by line.\<close>

lemma scan_line_outside:
  "\<not> inFunction st \<Longrightarrow> \<not> is_header l \<Longrightarrow> scan_line st (i, l) = st"
  by (simp add: scan_line_def Let_def is_header_def)

lemma scan_outside:
  "\<not> inFunction st \<Longrightarrow> no_header ls \<Longrightarrow> foldl scan_line st (enumerate i ls) = st"
  by (induction ls arbitrary: i) (simp_all add: scan_line_outside)

lemma scan_line_header:
  assumes "is_header l" "\<not> closes (net l) l"
  shows "scan_line st (i, l)
         = st\<lparr>inFunction := True, functionStart := i + 1, braceCount := net l\<rparr>"
  using assms by (auto simp add: scan_line_def Let_def is_header_def closes_def net_def)

lemma scan_line_body:
  assumes "inFunction st" "\<not> is_header l" "\<not> closes (braceCount st + net l) l"
  shows "scan_line st (i, l) = st\<lparr>braceCount := braceCount st + net l\<rparr>"
  using assms by (auto simp add: scan_line_def Let_def is_header_def closes_def net_def)

lemma scan_body:
  "inFunction st \<Longrightarrow> body_open (braceCount st) ls \<Longrightarrow>
   foldl scan_line st (enumerate i ls) = st\<lparr>braceCount := braceCount st + sum_list (map net ls)\<rparr>"
proof (induction ls arbitrary: st i)
  case Nil
  then show ?case by simp
next
  case (Cons l ls)
  let ?st = "st\<lparr>braceCount := braceCount st + net l\<rparr>"
  have step: "scan_line st (i, l) = ?st"
    using Cons.prems by (intro scan_line_body) simp_all
  have "foldl scan_line ?st (enumerate (Suc i) ls)
        = ?st\<lparr>braceCount := braceCount ?st + sum_list (map net ls)\<rparr>"
    using Cons.prems by (intro Cons.IH) simp_all
  then show ?case
    by (simp add: step add.assoc)
qed

lemma scan_line_close:
  assumes "inFunction st" "\<not> is_header l" "closes (braceCount st + net l) l"
  shows "scan_line st (i, l)
         = st\<lparr>inFunction := False, braceCount := 0,
              scanLineNumbers :=
                (if 50 < int i - int (functionStart st) + 2
                 then scanLineNumbers st @ [functionStart st..<i + 2]
                 else scanLineNumbers st)\<rparr>"
  using assms by (simp add: scan_line_def Let_def is_header_def closes_def net_def del: upt_Suc)

lemma findLongFunctions_single:
  assumes pre: "no_header pre" and post: "no_header post"
    and hdr: "is_header hdr" "\<not> closes (net hdr) hdr"
    and body: "body_open (net hdr) body"
    and cl: "\<not> is_header cl" "closes (net hdr + sum_list (map net body) + net cl) cl"
  shows "findLongFunctions (pre @ hdr # body @ cl # post)
         = (if 50 < length body + 2
            then [length pre + 1..<length pre + length body + 3] else [])"
proof -
  let ?s = "length pre" and ?e = "length pre + length body + 1"
  let ?init = "\<lparr>scanLineNumbers = [], inFunction = False, functionStart = 0, braceCount = 0\<rparr>"
  let ?st1 = "\<lparr>scanLineNumbers = [], inFunction = True, functionStart = ?s + 1, braceCount = net hdr\<rparr>"
  let ?st2 = "\<lparr>scanLineNumbers = [], inFunction = True, functionStart = ?s + 1,
               braceCount = net hdr + sum_list (map net body)\<rparr>"
  let ?ns = "if 50 < length body + 2 then [?s + 1..<?s + length body + 3] else []"
  let ?st3 = "\<lparr>scanLineNumbers = ?ns, inFunction = False, functionStart = ?s + 1, braceCount = 0\<rparr>"
  have en: "enumerate 0 (pre @ hdr # body @ cl # post)
      = enumerate 0 pre @ (?s, hdr) # enumerate (?s + 1) body @ (?e, cl) # enumerate (?e + 1) post"
    by (simp add: enumerate_append_eq)
  have s0: "foldl scan_line ?init (enumerate 0 pre) = ?init"
    using pre by (intro scan_outside) simp_all
  have s1: "scan_line ?init (?s, hdr) = ?st1"
    using hdr by (simp add: scan_line_header)
  have s2: "foldl scan_line ?st1 (enumerate (?s + 1) body) = ?st2"
    using scan_body [of ?st1 body "?s + 1"] body by simp
  have len: "(50 < int ?e - int (?s + 1) + 2) = (50 < length body + 2)"
    by auto
  have rng: "[?s + 1..<?e + 2] = [?s + 1..<?s + length body + 3]"
    by (simp add: numeral_3_eq_3 del: upt_Suc)
  have s3: "scan_line ?st2 (?e, cl) = ?st3"
    using scan_line_close [of ?st2 cl ?e] cl
    by (simp only: Scan.simps Scan.update_convs len rng append_Nil simp_thms if_True)
  have s4: "foldl scan_line ?st3 (enumerate (?e + 1) post) = ?st3"
    using post by (intro scan_outside) simp_all
  show ?thesis
    by (simp only: findLongFunctions_def en foldl_Cons foldl_append s0 s1 s2 s3 s4 Scan.simps)
qed

lemma long_function_filter:
  assumes "split_lines code = pre @ hdr # body @ cl # post"
    and "no_header pre" "no_header post"
    and "is_header hdr" "\<not> closes (net hdr) hdr"
    and "body_open (net hdr) body"
    and "\<not> is_header cl" "closes (net hdr + sum_list (map net body) + net cl) cl"
  shows "filter (\<lambda>p. patternName p = ''Long Function'') (detectPatterns code language)
         = (if 50 < length body + 2
            then [long_function [length pre + 1..<length pre + length body + 3]] else [])"
proof -
  have "findLongFunctions (split_lines code)
        = (if 50 < length body + 2
           then [length pre + 1..<length pre + length body + 3] else [])"
    using assms findLongFunctions_single [of pre post hdr body cl] by simp
  moreover have "[length pre + 1..<length pre + length body + 3] \<noteq> []"
    by simp
  ultimately show ?thesis
    by (simp add: detectPatterns_def detectAIPatterns_def detectStylePatterns_def
        detectComplexityPatterns_def detectSecurityPatterns_def Let_def long_function_def
        del: upt_Suc)
qed

text \<open>
  Claim C5, amended. A text holds one function declaration: a header on line s, no
  other line matching the function pattern, and the closing line e the first line
  after which the brace balance is 0 and which contains \<open>}\<close>. If the function spans
  more than 50 lines (60 in the scenario) the analyzer emits exactly one Long Function
  pattern, of medium severity, whose line numbers run from the start line s through
  the end line e; the scan appends \<open>functionStart..idx + 1\<close>, where \<open>idx\<close> counts from 0
  and so \<open>idx + 1\<close> is the end line itself. A function of at most 50 lines gives no
  such pattern.
\<close>

theorem long_function_pattern:
  assumes "split_lines code = pre @ hdr # body @ cl # post"
    and "no_header pre" "no_header post"
    and "is_header hdr" "\<not> closes (net hdr) hdr"
    and "body_open (net hdr) body"
    and "\<not> is_header cl" "closes (net hdr + sum_list (map net body) + net cl) cl"
  shows "filter (\<lambda>p. patternName p = ''Long Function'') (detectPatterns code language)
         = (if 50 < length body + 2
            then [long_function [length pre + 1..<length pre + length body + 3]] else [])"
  using assms by (rule long_function_filter)

lemma framed_split:
  "split_lines framed_function
   = [''// note'', []] @ ''function f()'' # framed_body @ ''}'' # [''done();'']"
  by code_simp

lemma framed_hyps:
  "no_header [''// note'', []]" "no_header [''done();'']"
  "is_header ''function f()''" "\<not> closes (net ''function f()'') ''function f()''"
  "body_open (net ''function f()'') framed_body"
  "\<not> is_header ''}''"
  "closes (net ''function f()'' + sum_list (map net framed_body) + net ''}'') ''}''"
  by code_simp+

text \<open>
  The function on lines 3 to 62: the line numbers are 3 through 62.
\<close>

theorem long_function_lines_3_to_62:
  "filter (\<lambda>p. patternName p = ''Long Function'') (detectPatterns framed_function [])
   = [long_function [3..<63]]"
proof -
  have n: "length [''// note'', []] + 1 = 3"
    "length [''// note'', []] + length framed_body + 3 = 63"
    "50 < length framed_body + 2"
    by (simp_all add: framed_body_def)
  show ?thesis
    using long_function_pattern [OF framed_split framed_hyps, of "[]"]
    by (simp only: n if_True)
qed

lemma sixty_split:
  "split_lines sixty_lines = [] @ ''function f() {'' # replicate 58 '' x;'' @ ''}'' # []"
  by code_simp

lemma sixty_hyps:
  "no_header []"
  "is_header ''function f() {''" "\<not> closes (net ''function f() {'') ''function f() {''"
  "body_open (net ''function f() {'') (replicate 58 '' x;'')"
  "\<not> is_header ''}''"
  "closes (net ''function f() {'' + sum_list (map net (replicate 58 '' x;'')) + net ''}'') ''}''"
  by code_simp+

lemma sixty_filter:
  "filter (\<lambda>p. patternName p = ''Long Function'') (detectPatterns sixty_lines [])
   = [long_function [1..<61]]"
proof -
  have n: "length ([]::string list) + 1 = 1"
    "length ([]::string list) + length (replicate 58 '' x;'') + 3 = 61"
    "50 < length (replicate 58 '' x;'') + 2"
    by simp_all
  show ?thesis
    using long_function_filter [OF sixty_split sixty_hyps(1) sixty_hyps(1) sixty_hyps(2-), of "[]"]
    by (simp only: n if_True)
qed

text \<open>
  Claim C5, as stated, fails on the function of 60 lines that is the whole text: the
  pattern's line numbers are 1 through 60, the start line through the end line, and no
  Long Function pattern reaches line 61, the end line plus 1.
\<close>

theorem long_function_stops_at_end_line:
  "long_function [1..<61] \<in> set (detectPatterns sixty_lines [])
   \<and> long_function [1..<62] \<notin> set (detectPatterns sixty_lines [])"
proof -
  let ?P = "\<lambda>p. patternName p = ''Long Function''"
  have in_filter: "p \<in> set (detectPatterns sixty_lines []) \<and> ?P p \<longleftrightarrow> p = long_function [1..<61]" for p
    using sixty_filter set_filter [of ?P "detectPatterns sixty_lines []"] by auto
  have "length [1..<61::nat] \<noteq> length [1..<62::nat]"
    by simp
  then have "[1..<61::nat] \<noteq> [1..<62]"
    by metis
  then have "long_function [1..<62] \<noteq> long_function [1..<61]"
    by (simp add: long_function_def del: upt_Suc)
  moreover have "?P (long_function ns)" for ns
    by (simp add: long_function_def)
  ultimately show ?thesis
    using in_filter by blast
qed

text \<open>
  A line of the body that matches the function pattern restarts the scan: the same 60
  lines with the statement \<open>const y = (1 + 2);\<close> inside give no line numbers.
\<close>

lemma inner_header_resets:
  "length inner_header_lines = 60" "findLongFunctions inner_header_lines = []"
  by code_simp+

section \<open>Properties of the Suggestion Generator\<close>

text \<open>
  The generator throws exactly on the texts that contain \<open>if\<close> without any match of
  \<open>/if\s*\(/\<close>.
\<close>

lemma generateSuggestions_throws_iff:
  "generateSuggestions code language = Inl e \<longleftrightarrow>
     e = TypeError \<and> str_includes code ''if'' \<and> match_g ifOpenPattern code = None"
  by (auto simp: generateSuggestions_def generateRefactoringSuggestions_def Let_def
        split: sum.splits option.splits if_splits)

lemma refactoring_if: "generateRefactoringSuggestions ''if'' = Inl TypeError"
  by code_simp

text \<open>
  Claim C1: no call of an engine throws, whatever the text. The code breaks it: on the
  text \<open>if\<close> the generator reads the length of a null match result and throws.
\<close>

theorem suggestions_throw_on_if: "generateSuggestions ''if'' language = Inl TypeError"
  by (simp add: generateSuggestions_def refactoring_if)

lemma token_security:
  "detectSecurityPatterns token_assignment =
     [\<lparr>patternType = ''security'', patternName = ''Hardcoded Credentials'', severity = High,
       description = ''Potential hardcoded credentials detected'', lineNumbers = []\<rparr>]"
  by code_simp

lemma token_suggestions:
  "generateRefactoringSuggestions token_assignment = Inr []"
  "generateSecuritySuggestions token_assignment = []"
  "generatePerformanceSuggestions token_assignment = []"
  "generateStyleSuggestions token_assignment = []"
  by code_simp+

text \<open>
  Claim C2: the Hardcoded Credentials pattern is emitted exactly when the Remove
  Hardcoded Credentials suggestion is. The code breaks it: the analyzer's credential
  pattern has the alternative \<open>token\<close>, the generator's has not, so an assignment of a
  literal to \<open>token\<close> gives the pattern and no suggestion at all.
\<close>

theorem token_pattern_without_suggestion:
  "''Hardcoded Credentials'' \<in> set (map patternName (detectPatterns token_assignment language))
   \<and> generateSuggestions token_assignment language = Inr []"
  by (simp add: detectPatterns_def token_security generateSuggestions_def token_suggestions)

section \<open>Properties of the Analysis Coordinator\<close>

lemma analyzeCode_returns:
  assumes "generateSuggestions code language = Inr sugs"
  shows "\<exists>r db'. analyzeCode (Some sid) db code language fileName userId = (Inr r, db')
     \<and> patterns r = map pattern_entry (detectPatterns code language)
     \<and> suggestions r = map suggestion_entry sugs
     \<and> code_patterns db' = code_patterns db @ map (pattern_row sid) (detectPatterns code language)
     \<and> developer_suggestions db' = developer_suggestions db @ map (suggestion_row sid) sugs"
  by (simp add: analyzeCode_def Let_def assms)

text \<open>
  Claim C3, amended. Whenever the Suggestion Generator returns, the coordinator returns
  a result with one entry per analyzer pattern, in order, carrying its type, name,
  severity and description, and one entry per suggestion carrying its type, title,
  description and priority. Line numbers and snippets are not part of the result; they
  are handed in full to the store.
\<close>

theorem coordinator_result_entries:
  assumes "generateSuggestions code language = Inr sugs"
  shows "\<exists>r db'. analyzeCode (Some sid) db code language fileName userId = (Inr r, db')
     \<and> patterns r = map pattern_entry (detectPatterns code language)
     \<and> suggestions r = map suggestion_entry sugs
     \<and> map line_numbers (drop (length (code_patterns db)) (code_patterns db'))
         = map lineNumbers (detectPatterns code language)
     \<and> map code_snippet (drop (length (developer_suggestions db)) (developer_suggestions db'))
         = map codeSnippet sugs"
proof -
  obtain r db' where "analyzeCode (Some sid) db code language fileName userId = (Inr r, db')"
    "patterns r = map pattern_entry (detectPatterns code language)"
    "suggestions r = map suggestion_entry sugs"
    "code_patterns db' = code_patterns db @ map (pattern_row sid) (detectPatterns code language)"
    "developer_suggestions db' = developer_suggestions db @ map (suggestion_row sid) sugs"
    using analyzeCode_returns [OF assms] by blast
  then show ?thesis
    by (simp add: pattern_row_def suggestion_row_def)
qed

text \<open>The result for a text of one comment line.\<close>

lemma comment_suggestions:
  "generateSuggestions one_comment ''javascript'' = Inr []"
  "generateSuggestions two_comments ''javascript'' = Inr []"
  by code_simp+

lemma comment_lines:
  "split_lines one_comment = [''//a'']" "split_lines two_comments = [''//a'', ''//b'']"
  "is_slash_comment ''//a''" "is_slash_comment ''//b''"
  "list_all (\<lambda>line. if length (trim line) = 0 then True else leading_spaces line mod 2 = 0) [''//a'']"
  "list_all (\<lambda>line. if length (trim line) = 0 then True else leading_spaces line mod 2 = 0) [''//a'', ''//b'']"
  "matchAll descriptiveVarPattern one_comment = []"
  "matchAll descriptiveVarPattern two_comments = []"
  by code_simp+

lemma comment_other:
  "detectStylePatterns one_comment = []" "detectStylePatterns two_comments = []"
  "detectComplexityPatterns one_comment = []" "detectComplexityPatterns two_comments = []"
  "detectSecurityPatterns one_comment = []" "detectSecurityPatterns two_comments = []"
  by code_simp+

lemma comment_patterns:
  "map lineNumbers (detectPatterns one_comment ''javascript'') = [[1]]"
  "map lineNumbers (detectPatterns two_comments ''javascript'') = [[1, 2]]"
  "map pattern_entry (detectPatterns one_comment ''javascript'') = [excessive_entry]"
  "map pattern_entry (detectPatterns two_comments ''javascript'') = [excessive_entry]"
  by (simp_all add: detectPatterns_def detectAIPatterns_def comment_lines comment_other
        js_gt_def num_def pattern_entry_def excessive_entry_def)

theorem coordinator_result_one_comment:
  "\<exists>r db'. analyzeCode (Some ''s1'') empty_store one_comment ''javascript'' ''a.js'' ''u1'' = (Inr r, db')
     \<and> patterns r = map pattern_entry (detectPatterns one_comment ''javascript'')
     \<and> suggestions r = map suggestion_entry []
     \<and> map line_numbers (drop (length (code_patterns empty_store)) (code_patterns db'))
         = map lineNumbers (detectPatterns one_comment ''javascript'')
     \<and> map code_snippet (drop (length (developer_suggestions empty_store)) (developer_suggestions db'))
         = map codeSnippet ([] :: DeveloperSuggestion list)"
  by (rule coordinator_result_entries [OF comment_suggestions(1)])

text \<open>
  Claim C3, as stated, fails: two texts whose analyzer patterns differ in their line
  numbers give the same returned patterns, so the result does not carry them.
\<close>

theorem coordinator_drops_line_numbers:
  "\<not> isl (fst (analyzeCode (Some ''s1'') empty_store one_comment ''javascript'' ''a.js'' ''u1''))
   \<and> \<not> isl (fst (analyzeCode (Some ''s1'') empty_store two_comments ''javascript'' ''a.js'' ''u1''))
   \<and> patterns (projr (fst (analyzeCode (Some ''s1'') empty_store one_comment ''javascript'' ''a.js'' ''u1'')))
       = patterns (projr (fst (analyzeCode (Some ''s1'') empty_store two_comments ''javascript'' ''a.js'' ''u1'')))
   \<and> map lineNumbers (detectPatterns one_comment ''javascript'') = [[1]]
   \<and> map lineNumbers (detectPatterns two_comments ''javascript'') = [[1, 2]]"
proof -
  obtain r1 d1 where r1: "analyzeCode (Some ''s1'') empty_store one_comment ''javascript'' ''a.js'' ''u1'' = (Inr r1, d1)"
    "patterns r1 = map pattern_entry (detectPatterns one_comment ''javascript'')"
    using analyzeCode_returns [OF comment_suggestions(1)] by blast
  obtain r2 d2 where r2: "analyzeCode (Some ''s1'') empty_store two_comments ''javascript'' ''a.js'' ''u1'' = (Inr r2, d2)"
    "patterns r2 = map pattern_entry (detectPatterns two_comments ''javascript'')"
    using analyzeCode_returns [OF comment_suggestions(2)] by blast
  show ?thesis
    by (simp add: r1 r2 comment_patterns)
qed

end
